theory Spec2Isabelle
  imports Main
begin

section \<open>Scope\<close>

text \<open>
  A model of the chatbot API: the controller \<open>ConversationsController\<close> with its five
  handlers, the route table, the Conversation model and the migration of its table.
  A request runs against an explicit world (the two tables) and returns the response
  together with the world it leaves; an \<open>await\<close> that can throw is a computation
  that returns an error or a value, and a \<open>try\<close>/\<open>catch\<close> is a case on its result.

  The web framework, the ORM, the validator, the HTTP client, the UUID library and the
  database are not part of the repository. Each call the controller makes into them is
  modelled by what the call does with the declarations of this repository: a query
  returns the rows that satisfy it, in table order; a relation is preloaded through the
  keys the model declares for it; a write is accepted when the column types and
  constraints of the migration accept it (\<open>session_id\<close> a unique \<open>uuid\<close>,
  \<open>last_messages\<close> a \<open>jsonb\<close>, \<open>messages_id\<close> a foreign key); any storage call can
  fail for reasons of its own, which the world schedules; the chatbot, the UUID
  generator and the paginator are inputs.
\<close>

section \<open>Values that cross the JavaScript boundary\<close>

text \<open>
  The controller is TypeScript, but the request body and the external chatbot's answer
  are parsed JSON: at run time they are arbitrary JavaScript values, whatever the
  annotations say. \<open>JUndefined\<close> is a missing property. Of a number only whether it
  is zero matters here, so numbers are integers.
\<close>

datatype jsval =
    JUndefined
  | JNull
  | JBool bool
  | JNum int
  | JStr string
  | JArr "jsval list"
  | JObj "(string \<times> jsval) list"

text \<open>JavaScript truthiness, as used by \<open>if (x)\<close> and \<open>a && b\<close>.\<close>

fun truthy :: "jsval \<Rightarrow> bool" where
  "truthy JUndefined = False"
| "truthy JNull = False"
| "truthy (JBool b) = b"
| "truthy (JNum n) = (n \<noteq> 0)"
| "truthy (JStr s) = (s \<noteq> [])"
| "truthy (JArr xs) = True"
| "truthy (JObj kvs) = True"

text \<open>Property read \<open>v.k\<close> on a value that is neither null nor undefined.\<close>

fun get_prop :: "jsval \<Rightarrow> string \<Rightarrow> jsval" where
  "get_prop (JObj kvs) k = (case map_of kvs k of None \<Rightarrow> JUndefined | Some v \<Rightarrow> v)"
| "get_prop v k = JUndefined"

section \<open>Strings: trimming, UUIDs, integer keys\<close>

definition is_space :: "char \<Rightarrow> bool" where
  "is_space c = (c \<in> set [CHR '' '', CHR 0x09, CHR 0x0A, CHR 0x0B, CHR 0x0C, CHR 0x0D])"

definition trim :: "string \<Rightarrow> string" where
  "trim s = rev (dropWhile is_space (rev (dropWhile is_space s)))"

definition is_hex :: "char \<Rightarrow> bool" where
  "is_hex c = (c \<in> set ''0123456789abcdefABCDEF'')"

text \<open>\<open>[0-9a-f]{n}\<close> under the \<open>i\<close> flag: consume exactly \<open>n\<close> hex digits.\<close>

fun hex_run :: "nat \<Rightarrow> string \<Rightarrow> string option" where
  "hex_run 0 s = Some s"
| "hex_run (Suc n) [] = None"
| "hex_run (Suc n) (c # s) = (if is_hex c then hex_run n s else None)"

fun dash :: "string \<Rightarrow> string option" where
  "dash [] = None"
| "dash (c # s) = (if c = CHR ''-'' then Some s else None)"

text \<open>One character out of a class.\<close>

fun one_of :: "string \<Rightarrow> string \<Rightarrow> string option" where
  "one_of cls [] = None"
| "one_of cls (c # s) = (if c \<in> set cls then Some s else None)"

text \<open>
  \<^verbatim>\<open>/^[0-9a-f]{8}-[0-9a-f]{4}-[0-9a-f]{4}-[0-9a-f]{4}-[0-9a-f]{12}$/i\<close>,
  the test of \<open>getConversationMessages\<close>.
\<close>

definition is_uuid :: "string \<Rightarrow> bool" where
  "is_uuid s =
     (Option.bind (hex_run 8 s) (\<lambda>s1.
      Option.bind (dash s1) (\<lambda>s2.
      Option.bind (hex_run 4 s2) (\<lambda>s3.
      Option.bind (dash s3) (\<lambda>s4.
      Option.bind (hex_run 4 s4) (\<lambda>s5.
      Option.bind (dash s5) (\<lambda>s6.
      Option.bind (hex_run 4 s6) (\<lambda>s7.
      Option.bind (dash s7) (\<lambda>s8.
      hex_run 12 s8)))))))) = Some [])"

text \<open>
  The validator's \<open>rules.uuid()\<close>, which without a version asks for version 4:
  \<^verbatim>\<open>/^[0-9A-F]{8}-[0-9A-F]{4}-4[0-9A-F]{3}-[89AB][0-9A-F]{3}-[0-9A-F]{12}$/i\<close>.
\<close>

definition is_uuid_v4 :: "string \<Rightarrow> bool" where
  "is_uuid_v4 s =
     (Option.bind (hex_run 8 s) (\<lambda>s1.
      Option.bind (dash s1) (\<lambda>s2.
      Option.bind (hex_run 4 s2) (\<lambda>s3.
      Option.bind (dash s3) (\<lambda>s4.
      Option.bind (one_of ''4'' s4) (\<lambda>s5.
      Option.bind (hex_run 3 s5) (\<lambda>s6.
      Option.bind (dash s6) (\<lambda>s7.
      Option.bind (one_of ''89abAB'' s7) (\<lambda>s8.
      Option.bind (hex_run 3 s8) (\<lambda>s9.
      Option.bind (dash s9) (\<lambda>s10.
      hex_run 12 s10)))))))))) = Some [])"

definition lower_hex :: "char \<Rightarrow> char" where
  "lower_hex c = (case map_of (zip ''ABCDEF'' ''abcdef'') c of None \<Rightarrow> c | Some l \<Rightarrow> l)"

text \<open>
  The input function of the database's \<open>uuid\<close> type: sixteen pairs of hex digits, a
  dash allowed after every second pair, braces allowed around the whole. The result
  is the value in its one output spelling, lower case.
\<close>

fun uuid_pairs :: "nat \<Rightarrow> string \<Rightarrow> (string \<times> string) option" where
  "uuid_pairs 0 s = Some ([], s)"
| "uuid_pairs (Suc k) s =
     (case s of
        a # b # r \<Rightarrow>
          if is_hex a \<and> is_hex b then
            map_option (\<lambda>(ds, rest). (lower_hex a # lower_hex b # ds, rest))
              (uuid_pairs k
                 (case r of
                    [] \<Rightarrow> r
                  | c # r' \<Rightarrow> if c = CHR ''-'' \<and> even k \<and> k \<noteq> 0 then r' else r))
          else None
      | _ \<Rightarrow> None)"

definition uuid_out :: "string \<Rightarrow> string" where
  "uuid_out ds =
     take 8 ds @ ''-'' @ take 4 (drop 8 ds) @ ''-'' @ take 4 (drop 12 ds) @ ''-'' @
     take 4 (drop 16 ds) @ ''-'' @ drop 20 ds"

definition uuid_in :: "string \<Rightarrow> string option" where
  "uuid_in s =
     (case s of
        [] \<Rightarrow> None
      | c # r \<Rightarrow>
          if c = CHR ''{'' then
            (case uuid_pairs 16 r of
               None \<Rightarrow> None
             | Some (ds, rest) \<Rightarrow> if rest = ''}'' then Some (uuid_out ds) else None)
          else
            (case uuid_pairs 16 s of
               None \<Rightarrow> None
             | Some (ds, rest) \<Rightarrow> if rest = [] then Some (uuid_out ds) else None))"

definition is_digit :: "char \<Rightarrow> bool" where
  "is_digit c = (c \<in> set ''0123456789'')"

definition digit_val :: "char \<Rightarrow> nat" where
  "digit_val c = of_char c - 48"

text \<open>A non-empty run of decimal digits, read as a number.\<close>

definition parse_nat :: "string \<Rightarrow> nat option" where
  "parse_nat s =
     (if s \<noteq> [] \<and> list_all is_digit s
      then Some (foldl (\<lambda>a c. 10 * a + digit_val c) 0 s) else None)"

section \<open>JSON text\<close>

text \<open>
  What the database accepts for a \<open>jsonb\<close> column: one JSON value with white space
  around it. A recogniser: every function returns the rest of the input after what it
  read, and only of a string also the characters it holds. Characters are bytes, so a
  character outside ASCII is a run of bytes above 127, which a JSON string may hold
  as they are.
\<close>

definition json_ws :: "char \<Rightarrow> bool" where
  "json_ws c = (c \<in> set [CHR '' '', CHR 0x09, CHR 0x0A, CHR 0x0D])"

definition skip_ws :: "string \<Rightarrow> string" where
  "skip_ws s = dropWhile json_ws s"

definition hex_val :: "char \<Rightarrow> nat" where
  "hex_val c =
     (let n = of_char c :: nat
      in if n \<le> 57 then n - 48 else if 97 \<le> n then n - 87 else n - 55)"

definition code_unit :: "char \<Rightarrow> char \<Rightarrow> char \<Rightarrow> char \<Rightarrow> nat" where
  "code_unit h1 h2 h3 h4 = 4096 * hex_val h1 + 256 * hex_val h2 + 16 * hex_val h3 + hex_val h4"

definition simple_escape :: "char \<Rightarrow> bool" where
  "simple_escape e =
     (e \<in> set [CHR 0x22, CHR 0x5C, CHR ''/'', CHR ''b'', CHR ''f'', CHR ''n'', CHR ''r'',
               CHR ''t''])"

definition unescape :: "char \<Rightarrow> char" where
  "unescape e =
     (if e = CHR ''b'' then CHR 0x08
      else if e = CHR ''f'' then CHR 0x0C
      else if e = CHR ''n'' then CHR 0x0A
      else if e = CHR ''r'' then CHR 0x0D
      else if e = CHR ''t'' then CHR 0x09
      else e)"

text \<open>The bytes of a code point in UTF-8.\<close>

definition utf8 :: "nat \<Rightarrow> string" where
  "utf8 n =
     (if n < 0x80 then [char_of n]
      else if n < 0x800 then [char_of (0xC0 + n div 64), char_of (0x80 + n mod 64)]
      else if n < 0x10000 then
        [char_of (0xE0 + n div 4096), char_of (0x80 + n div 64 mod 64),
         char_of (0x80 + n mod 64)]
      else
        [char_of (0xF0 + n div 262144), char_of (0x80 + n div 4096 mod 64),
         char_of (0x80 + n div 64 mod 64), char_of (0x80 + n mod 64)])"

definition emit :: "string \<Rightarrow> (string \<times> string) option \<Rightarrow> (string \<times> string) option" where
  "emit xs res = map_option (\<lambda>(cs, rest). (xs @ cs, rest)) res"

text \<open>
  The rest of a string after its opening quote: the characters the string holds, and
  the input after its closing quote. A control character must be escaped; \<open>\u0000\<close>
  cannot be stored; a high surrogate must be followed at once by a low one, and a low
  one must follow a high one.
\<close>

fun json_chars :: "string \<Rightarrow> (string \<times> string) option" where
  "json_chars [] = None"
| "json_chars (c # s) =
     (if c = CHR 0x22 then Some ([], s)
      else if c = CHR 0x5C then
        (case s of
           [] \<Rightarrow> None
         | e # r \<Rightarrow>
             if simple_escape e then emit [unescape e] (json_chars r)
             else if e = CHR ''u'' then
               (case r of
                  h1 # h2 # h3 # h4 # r' \<Rightarrow>
                    if is_hex h1 \<and> is_hex h2 \<and> is_hex h3 \<and> is_hex h4 then
                      (if code_unit h1 h2 h3 h4 = 0 then None
                       else if 0xD800 \<le> code_unit h1 h2 h3 h4 \<and>
                               code_unit h1 h2 h3 h4 \<le> 0xDBFF then
                         (case r' of
                            b # u # l1 # l2 # l3 # l4 # r'' \<Rightarrow>
                              if b = CHR 0x5C \<and> u = CHR ''u'' \<and>
                                 is_hex l1 \<and> is_hex l2 \<and> is_hex l3 \<and> is_hex l4 \<and>
                                 0xDC00 \<le> code_unit l1 l2 l3 l4 \<and>
                                 code_unit l1 l2 l3 l4 \<le> 0xDFFF
                              then emit (utf8 (0x10000 +
                                                (code_unit h1 h2 h3 h4 - 0xD800) * 0x400 +
                                                (code_unit l1 l2 l3 l4 - 0xDC00)))
                                     (json_chars r'')
                              else None
                          | _ \<Rightarrow> None)
                       else if 0xDC00 \<le> code_unit h1 h2 h3 h4 \<and>
                               code_unit h1 h2 h3 h4 \<le> 0xDFFF then None
                       else emit (utf8 (code_unit h1 h2 h3 h4)) (json_chars r'))
                    else None
                | _ \<Rightarrow> None)
             else None)
      else if of_char c < (32 :: nat) then None
      else emit [c] (json_chars s))"

definition digits1 :: "string \<Rightarrow> string option" where
  "digits1 s =
     (case s of
        [] \<Rightarrow> None
      | d # r \<Rightarrow> if is_digit d then Some (dropWhile is_digit r) else None)"

definition json_exponent :: "string \<Rightarrow> string option" where
  "json_exponent s =
     (case s of
        [] \<Rightarrow> Some s
      | e # r \<Rightarrow>
          if e = CHR ''e'' \<or> e = CHR ''E'' then
            digits1 (case r of
                       [] \<Rightarrow> r
                     | sg # r' \<Rightarrow> if sg = CHR ''+'' \<or> sg = CHR ''-'' then r' else r)
          else Some s)"

definition json_fraction :: "string \<Rightarrow> string option" where
  "json_fraction s =
     (case s of
        [] \<Rightarrow> Some s
      | p # r \<Rightarrow>
          if p = CHR ''.'' then Option.bind (digits1 r) json_exponent else json_exponent s)"

definition json_integer :: "string \<Rightarrow> string option" where
  "json_integer s =
     (case s of
        [] \<Rightarrow> None
      | d # r \<Rightarrow>
          if d = CHR ''0'' then Some r
          else if is_digit d then Some (dropWhile is_digit r) else None)"

definition json_number :: "string \<Rightarrow> string option" where
  "json_number s =
     Option.bind
       (json_integer (case s of [] \<Rightarrow> s | m # r \<Rightarrow> if m = CHR ''-'' then r else s))
       json_fraction"

definition json_literal :: "string \<Rightarrow> string option" where
  "json_literal s =
     (if take 4 s = ''true'' then Some (drop 4 s)
      else if take 5 s = ''false'' then Some (drop 5 s)
      else if take 4 s = ''null'' then Some (drop 4 s)
      else None)"

text \<open>
  Values nest, so the three mutually recursive recognisers count their calls down
  from a bound. Along any chain of calls each value reads a character of its own and
  each further element or member a comma, so a chain is never longer than twice the
  text, which is the bound \<open>json_text\<close> starts from.
\<close>

fun json_value :: "nat \<Rightarrow> string \<Rightarrow> string option"
  and json_elements :: "nat \<Rightarrow> string \<Rightarrow> string option"
  and json_members :: "nat \<Rightarrow> string \<Rightarrow> string option" where
  "json_value 0 s = None"
| "json_value (Suc n) s =
     (case s of
        [] \<Rightarrow> None
      | c # r \<Rightarrow>
          if c = CHR 0x22 then map_option snd (json_chars r)
          else if c = CHR ''['' then
            (case skip_ws r of
               [] \<Rightarrow> None
             | d # r' \<Rightarrow> if d = CHR '']'' then Some r' else json_elements n (d # r'))
          else if c = CHR ''{'' then
            (case skip_ws r of
               [] \<Rightarrow> None
             | d # r' \<Rightarrow> if d = CHR ''}'' then Some r' else json_members n (d # r'))
          else if c \<in> set ''tfn'' then json_literal s
          else json_number s)"
| "json_elements 0 s = None"
| "json_elements (Suc n) s =
     (case json_value n s of
        None \<Rightarrow> None
      | Some r \<Rightarrow>
          (case skip_ws r of
             [] \<Rightarrow> None
           | d # r' \<Rightarrow>
               if d = CHR '','' then json_elements n (skip_ws r')
               else if d = CHR '']'' then Some r' else None))"
| "json_members 0 s = None"
| "json_members (Suc n) s =
     (case s of
        [] \<Rightarrow> None
      | q # r \<Rightarrow>
          if q = CHR 0x22 then
            (case json_chars r of
               None \<Rightarrow> None
             | Some (name, r1) \<Rightarrow>
                 (case skip_ws r1 of
                    [] \<Rightarrow> None
                  | col # r2 \<Rightarrow>
                      if col = CHR '':'' then
                        (case json_value n (skip_ws r2) of
                           None \<Rightarrow> None
                         | Some r3 \<Rightarrow>
                             (case skip_ws r3 of
                                [] \<Rightarrow> None
                              | d # r4 \<Rightarrow>
                                  if d = CHR '','' then json_members n (skip_ws r4)
                                  else if d = CHR ''}'' then Some r4 else None))
                      else None))
          else None)"

definition json_text :: "string \<Rightarrow> bool" where
  "json_text s =
     (case json_value (2 * length s + 2) (skip_ws s) of
        None \<Rightarrow> False
      | Some r \<Rightarrow> skip_ws r = [])"

text \<open>The characters of a text that is one JSON string, as the driver reads it back.\<close>

definition json_string :: "string \<Rightarrow> string option" where
  "json_string s =
     (case skip_ws s of
        [] \<Rightarrow> None
      | q # r \<Rightarrow>
          if q = CHR 0x22 then
            (case json_chars r of
               None \<Rightarrow> None
             | Some (cs, rest) \<Rightarrow> if skip_ws rest = [] then Some cs else None)
          else None)"
section \<open>The data model\<close>

datatype sender = sender_user | sender_bot

text \<open>
  Modelled from the spec: the Message model (\<open>App/Models/Message\<close> is not among the
  sources). Its fields are those the controller writes (\<open>senderType\<close>, \<open>message\<close>) and
  those the controller's response schema lists for \<open>lastMessage\<close>.
\<close>

record Message =
  msg_id :: nat
  senderType :: sender
  message :: jsval
  msg_createdAt :: nat
  msg_updatedAt :: nat

text \<open>
  A value of the \<open>jsonb\<close> column \<open>last_messages\<close>: a JSON value, named by the text the
  database accepted for it.
\<close>

datatype jsonb = Jsonb string

text \<open>
  A row of the conversations table; \<open>None\<close> is SQL \<open>NULL\<close>. The \<open>uuid\<close> column
  \<open>session_id\<close> holds a value in its output spelling.
\<close>

record Conversation =
  conv_id :: nat
  session_id :: string
  messagesId :: "nat option"
  lastMessages :: "jsonb option"
  createdAt :: nat
  updatedAt :: nat

text \<open>
  The world a request runs in: the two tables with their serial counters, the faults
  the storage layer is about to raise (one entry per storage call still to come,
  \<open>Some e\<close> for a call that throws an error with message \<open>e\<close>; past the end of the list
  every call goes through), and the number of UUIDs generated so far.
\<close>

record world =
  conversations :: "Conversation list"
  messages :: "Message list"
  conversations_seq :: nat
  messages_seq :: nat
  faults :: "string option list"
  uuid_calls :: nat

text \<open>A conversation as serialized with its preloaded \<open>lastMessage\<close> relation.\<close>

record ConversationJSON =
  conversation :: Conversation
  lastMessage :: "Message option"

text \<open>
  A page as serialized: \<open>per_page\<close> and \<open>current_page\<close> are the values the handler
  passed, \<open>last_page\<close> is null when it is not a number.
\<close>

record Paginated =
  meta_total :: nat
  meta_perPage :: jsval
  meta_currentPage :: jsval
  meta_lastPage :: "nat option"
  data :: "ConversationJSON list"

text \<open>
  What the controller takes from outside: the UUID generator (the \<open>k\<close>-th call of
  \<open>uuidv4()\<close>); the external chatbot (\<open>axios.post\<close>: \<open>Inl\<close> is the message of the error
  it throws, \<open>Inr\<close> the \<open>data\<close> of its response); the clock that stamps rows; the text
  the database driver sends for a bound value that is not a string; and the ORM's
  paginator, which is given \<open>page\<close> and \<open>limit\<close> as the handler passes them and the rows
  the query matches (\<open>Inl\<close> is the message of the error it throws).
\<close>

record env =
  uuidv4 :: "nat \<Rightarrow> string"
  axios_post :: "string \<Rightarrow> jsval \<Rightarrow> string + jsval"
  now :: nat
  prepareValue :: "jsval \<Rightarrow> string"
  paginate :: "jsval \<Rightarrow> jsval \<Rightarrow> ConversationJSON list \<Rightarrow> string + Paginated"

section \<open>Exceptions and the request monad\<close>

datatype error =
    ValidationException "(string \<times> string) list"
  | Exception string

type_synonym 'a io = "world \<Rightarrow> (error + 'a) \<times> world"

definition return_io :: "'a \<Rightarrow> 'a io" where
  "return_io x = (\<lambda>w. (Inr x, w))"

definition throw_io :: "error \<Rightarrow> 'a io" where
  "throw_io e = (\<lambda>w. (Inl e, w))"

text \<open>\<open>await m\<close> and then \<open>f\<close>; a throw skips \<open>f\<close>, what was written stays written.\<close>

definition bind_io :: "'a io \<Rightarrow> ('a \<Rightarrow> 'b io) \<Rightarrow> 'b io" where
  "bind_io m f = (\<lambda>w. case m w of (Inl e, w') \<Rightarrow> (Inl e, w') | (Inr x, w') \<Rightarrow> f x w')"

text \<open>\<open>error.message\<close> of a caught error.\<close>

fun error_message :: "error \<Rightarrow> string" where
  "error_message (ValidationException errs) = ''E_VALIDATION_FAILURE: Validation Exception''"
| "error_message (Exception e) = e"

text \<open>
  The errors the libraries and the database raise, each named by its code or by the
  words its message has in every instance; the full message goes on to quote the
  statement and the values involved.
\<close>

definition undefined_binding :: string where
  "undefined_binding = ''Undefined binding(s) detected when compiling query''"

definition invalid_integer :: string where
  "invalid_integer = ''invalid input syntax for type integer''"

definition integer_out_of_range :: string where
  "integer_out_of_range = ''out of range for type integer''"

definition invalid_uuid :: string where
  "invalid_uuid = ''invalid input syntax for type uuid''"

definition invalid_json :: string where
  "invalid_json = ''invalid input syntax for type json''"

definition duplicate_key :: string where
  "duplicate_key = ''duplicate key value violates unique constraint''"

definition foreign_key_violation :: string where
  "foreign_key_violation = ''violates foreign key constraint''"

definition E_MISSING_MODEL_ATTRIBUTE :: string where
  "E_MISSING_MODEL_ATTRIBUTE = ''E_MISSING_MODEL_ATTRIBUTE''"

section \<open>The storage layer\<close>

text \<open>Every call to the database first consumes its entry of the fault schedule.\<close>

definition storage :: "'a io \<Rightarrow> 'a io" where
  "storage f = (\<lambda>w.
     case faults w of
       [] \<Rightarrow> f w
     | None # fs \<Rightarrow> f (w\<lparr>faults := fs\<rparr>)
     | Some e # fs \<Rightarrow> (Inl (Exception e), w\<lparr>faults := fs\<rparr>))"

text \<open>
  A value bound into a query. The query builder refuses an \<open>undefined\<close> binding when
  it compiles the query, before anything is sent to the database.
\<close>

definition bound :: "string option \<Rightarrow> (string \<Rightarrow> 'a io) \<Rightarrow> 'a io" where
  "bound v f =
     (case v of
        None \<Rightarrow> throw_io (Exception undefined_binding)
      | Some s \<Rightarrow> f s)"

text \<open>
  A string compared with an integer primary key column. The database reads it as a
  number: white space around it, a sign, decimal digits.
\<close>

definition primary_key :: "string \<Rightarrow> int option" where
  "primary_key s =
     (case trim s of
        [] \<Rightarrow> None
      | c # r \<Rightarrow>
          if c = CHR ''-'' then map_option (\<lambda>n. - int n) (parse_nat r)
          else if c = CHR ''+'' then map_option int (parse_nat r)
          else map_option int (parse_nat (c # r)))"

text \<open>
  The column holds 32-bit integers, and the database refuses a key outside their
  range. The tables of the model are lists of rows with natural numbers for ids, so
  the range is checked where it shows: on a key that names no row.
\<close>

definition where_primary_key :: "string \<Rightarrow> ('r \<Rightarrow> nat) \<Rightarrow> 'r list \<Rightarrow> error + 'r option" where
  "where_primary_key s key rows =
     (case primary_key s of
        None \<Rightarrow> Inl (Exception invalid_integer)
      | Some k \<Rightarrow>
          (case find (\<lambda>r. int (key r) = k) rows of
             Some r \<Rightarrow> Inr (Some r)
           | None \<Rightarrow>
               if - 2147483648 \<le> k \<and> k \<le> 2147483647 then Inr None
               else Inl (Exception integer_out_of_range)))"

text \<open>
  \<open>Conversation.findBy('session_id', sid)\<close>: the first row, or null. The column is a
  \<open>uuid\<close>: the database reads the string as a UUID and compares values, so the
  spelling of the letters does not matter.
\<close>

definition Conversation_findBy_session_id :: "string \<Rightarrow> Conversation option io" where
  "Conversation_findBy_session_id sid =
     storage (\<lambda>w.
       case uuid_in sid of
         None \<Rightarrow> (Inl (Exception invalid_uuid), w)
       | Some u \<Rightarrow> (Inr (find (\<lambda>c. session_id c = u) (conversations w)), w))"

text \<open>
  \<open>Conversation.create({ session_id })\<close>. The migration declares \<open>session_id\<close> a unique
  \<open>uuid\<close> and \<open>id\<close> an auto-increment, whose counter also advances when the insert is
  refused as a duplicate; the reference and the cached text start as null. The model
  instance returned keeps the session id as it was given.
\<close>

definition Conversation_create :: "env \<Rightarrow> string \<Rightarrow> Conversation io" where
  "Conversation_create ev sid =
     storage (\<lambda>w.
       case uuid_in sid of
         None \<Rightarrow> (Inl (Exception invalid_uuid), w)
       | Some u \<Rightarrow>
           if u \<in> set (map session_id (conversations w))
           then (Inl (Exception duplicate_key),
                 w\<lparr>conversations_seq := Suc (conversations_seq w)\<rparr>)
           else
             (let c = \<lparr>conv_id = Suc (conversations_seq w), session_id = u,
                       messagesId = None, lastMessages = None,
                       createdAt = now ev, updatedAt = now ev\<rparr>
              in (Inr (c\<lparr>session_id := sid\<rparr>),
                  w\<lparr>conversations := conversations w @ [c],
                    conversations_seq := Suc (conversations_seq w)\<rparr>)))"

text \<open>
  Modelled from the spec: \<open>Message.create({ senderType, message })\<close>, on a messages
  table whose migration is not among the sources: a row with a serial id and the two
  fields as given.
\<close>

definition Message_create :: "env \<Rightarrow> sender \<Rightarrow> jsval \<Rightarrow> Message io" where
  "Message_create ev s txt =
     storage (\<lambda>w.
       let m = \<lparr>msg_id = Suc (messages_seq w), senderType = s, message = txt,
                 msg_createdAt = now ev, msg_updatedAt = now ev\<rparr>
       in (Inr m, w\<lparr>messages := messages w @ [m], messages_seq := Suc (messages_seq w)\<rparr>))"

text \<open>The text the driver sends for a bound value: a string goes as it is.\<close>

definition bound_text :: "env \<Rightarrow> jsval \<Rightarrow> string" where
  "bound_text ev v = (case v of JStr s \<Rightarrow> s | _ \<Rightarrow> prepareValue ev v)"

text \<open>The input function of the \<open>jsonb\<close> type: the text must be JSON.\<close>

definition jsonb_in :: "string \<Rightarrow> jsonb option" where
  "jsonb_in t = (if json_text t then Some (Jsonb t) else None)"

text \<open>
  Whether the model finds \<open>lastMessages\<close> unchanged by an assignment of \<open>v\<close>: the
  attribute was loaded as the JavaScript value of the stored JSON, so a string is the
  same value only when the column holds the JSON string of these characters. An
  unchanged attribute is left out of the UPDATE. (A value that is not a string is
  taken as changed: writing over a column the JSON of the value it holds changes
  nothing.)
\<close>

definition unchanged :: "jsonb option \<Rightarrow> jsval \<Rightarrow> bool" where
  "unchanged old v =
     (case (old, v) of
        (Some (Jsonb t), JStr s) \<Rightarrow> json_string t = Some s
      | _ \<Rightarrow> False)"

text \<open>
  What an UPDATE does to the \<open>last_messages\<close> column when the model's attribute was
  assigned \<open>lm\<close> (\<open>None\<close> is \<open>null\<close>): nothing, or a new value, or the database refuses
  the text bound to the \<open>jsonb\<close> column.
\<close>

definition last_messages_update ::
    "env \<Rightarrow> Conversation \<Rightarrow> jsval option \<Rightarrow> error + (jsonb option \<Rightarrow> jsonb option)" where
  "last_messages_update ev c lm =
     (case lm of
        None \<Rightarrow> Inr (\<lambda>old. None)
      | Some v \<Rightarrow>
          if unchanged (lastMessages c) v then Inr (\<lambda>old. old)
          else
            (case jsonb_in (bound_text ev v) of
               None \<Rightarrow> Inl (Exception invalid_json)
             | Some j \<Rightarrow> Inr (\<lambda>old. Some j)))"

text \<open>
  \<open>conversation.save()\<close> on the model instance \<open>c\<close> after the assignments
  \<open>c.messagesId = mid\<close> and \<open>c.lastMessages = lm\<close>: an UPDATE of the changed
  columns and of \<open>updated_at\<close> on the row with the model's id. Both callers assign a
  \<open>messagesId\<close> the instance did not have, so there is always an UPDATE.
  \<open>messages_id\<close> is a foreign key into the messages table.
\<close>

definition Conversation_save ::
    "env \<Rightarrow> Conversation \<Rightarrow> nat option \<Rightarrow> jsval option \<Rightarrow> unit io" where
  "Conversation_save ev c mid lm =
     storage (\<lambda>w.
       case last_messages_update ev c lm of
         Inl e \<Rightarrow> (Inl e, w)
       | Inr f \<Rightarrow>
           if (case mid of None \<Rightarrow> False
               | Some m \<Rightarrow> m \<notin> set (map msg_id (messages w)))
           then (Inl (Exception foreign_key_violation), w)
           else (Inr (),
                 w\<lparr>conversations :=
                     map (\<lambda>r. if conv_id r = conv_id c
                              then r\<lparr>messagesId := mid, lastMessages := f (lastMessages r),
                                     updatedAt := now ev\<rparr>
                              else r) (conversations w)\<rparr>))"

section \<open>HTTP: context and responses\<close>

record HttpContext =
  params :: "string \<rightharpoonup> string"
  qs :: "string \<rightharpoonup> string"
  body :: jsval

datatype response =
    Ok_answer string jsval
  | Ok_page Paginated
  | Ok_conversation ConversationJSON
  | Ok_hello
  | NoContent
  | BadRequest "(string \<times> string) list"
  | NotFound string
  | InternalServerError string "string option"

fun status :: "response \<Rightarrow> nat" where
  "status (Ok_answer sid msg) = 200"
| "status (Ok_page p) = 200"
| "status (Ok_conversation c) = 200"
| "status Ok_hello = 200"
| "status NoContent = 204"
| "status (BadRequest errs) = 400"
| "status (NotFound msg) = 404"
| "status (InternalServerError msg err) = 500"

text \<open>
  The \<open>catch\<close> block the four later handlers share in shape:
  \<open>response.internalServerError({ message: msg, error: error.message })\<close>.
\<close>

definition catch_all :: "string \<Rightarrow> response io \<Rightarrow> world \<Rightarrow> response \<times> world" where
  "catch_all msg m w =
     (case m w of
        (Inr r, w') \<Rightarrow> (r, w')
      | (Inl e, w') \<Rightarrow> (InternalServerError msg (Some (error_message e)), w'))"

section \<open>sendQuestion\<close>

record payload =
  question :: string
  sessionId :: "string option"

text \<open>
  The validation schema. \<open>question\<close> is \<open>schema.string({ trim: true },
  [rules.minLength(1)])\<close>: a value that is missing, null or the empty string fails as
  \<open>required\<close>; a string is trimmed, and the rules after it run only on a value that
  still exists, which the empty string does not. So \<open>minLength(1)\<close> sees non-empty
  strings only, and a question of white space is accepted as the empty string.
\<close>

definition validate_question :: "jsval \<Rightarrow> (string \<times> string) list + string" where
  "validate_question v =
     (case v of
        JUndefined \<Rightarrow> Inl [(''question'', ''required'')]
      | JNull \<Rightarrow> Inl [(''question'', ''required'')]
      | JStr s \<Rightarrow>
          if s = [] then Inl [(''question'', ''required'')]
          else if trim s = [] then Inr (trim s)
          else if length (trim s) < 1 then Inl [(''question'', ''minLength'')]
          else Inr (trim s)
      | _ \<Rightarrow> Inl [(''question'', ''string'')])"

text \<open>
  \<open>sessionId\<close> is \<open>schema.string.optional({ trim: true }, [rules.uuid()])\<close>: a value
  that is missing, null or the empty string is left out of the payload; a string is
  trimmed, and \<open>rules.uuid()\<close>, which asks for a version 4 UUID, runs unless the
  trimmed string is empty.
\<close>

definition validate_sessionId :: "jsval \<Rightarrow> (string \<times> string) list + string option" where
  "validate_sessionId v =
     (case v of
        JUndefined \<Rightarrow> Inr None
      | JNull \<Rightarrow> Inr None
      | JStr s \<Rightarrow>
          if s = [] then Inr None
          else if trim s = [] then Inr (Some (trim s))
          else if is_uuid_v4 (trim s) then Inr (Some (trim s))
          else Inl [(''sessionId'', ''uuid'')]
      | _ \<Rightarrow> Inl [(''sessionId'', ''string'')])"

definition validate :: "jsval \<Rightarrow> (string \<times> string) list + payload" where
  "validate b =
     (case (validate_question (get_prop b ''question''),
            validate_sessionId (get_prop b ''sessionId'')) of
        (Inr q, Inr s) \<Rightarrow> Inr \<lparr>question = q, sessionId = s\<rparr>
      | (Inl e1, Inr s) \<Rightarrow> Inl e1
      | (Inr q, Inl e2) \<Rightarrow> Inl e2
      | (Inl e1, Inl e2) \<Rightarrow> Inl (e1 @ e2))"

text \<open>\<open>await request.validate({ schema })\<close>: the payload, or a validation exception.\<close>

definition request_validate :: "jsval \<Rightarrow> payload io" where
  "request_validate b =
     (case validate b of
        Inl errs \<Rightarrow> throw_io (ValidationException errs)
      | Inr p \<Rightarrow> return_io p)"

definition uuid_v4 :: "env \<Rightarrow> string io" where
  "uuid_v4 ev = (\<lambda>w. (Inr (uuidv4 ev (uuid_calls w)), w\<lparr>uuid_calls := Suc (uuid_calls w)\<rparr>))"

definition externalApiUrl :: string where
  "externalApiUrl = ''https://api.majadigidev.jatimprov.go.id/api/external/chatbot/send-message''"

definition fallback :: jsval where
  "fallback = JStr ''Sorry, I could not get a response from the chatbot at this time.''"

text \<open>
  Step 2 of the handler: the inner \<open>try\<close> around \<open>axios.post\<close>. The text starts as the
  fallback and is replaced only when \<open>data && data.message\<close> is truthy; a throw is
  caught and logged.
\<close>

definition chatbot_request :: "string \<Rightarrow> string \<Rightarrow> jsval" where
  "chatbot_request currentSessionId userQuestion =
     JObj [(''session_id'', JStr currentSessionId), (''message'', JStr userQuestion)]"

definition ask_chatbot :: "env \<Rightarrow> string \<Rightarrow> string \<Rightarrow> jsval" where
  "ask_chatbot ev currentSessionId userQuestion =
     (case axios_post ev externalApiUrl (chatbot_request currentSessionId userQuestion) of
        Inl externalApiError \<Rightarrow> fallback
      | Inr d \<Rightarrow> if truthy d \<and> truthy (get_prop d ''message'') then get_prop d ''message'' else fallback)"

text \<open>Lines 71 to 84: find or create the conversation and fix the session id.\<close>

definition new_session :: "env \<Rightarrow> (Conversation option \<times> string) io" where
  "new_session ev =
     bind_io (uuid_v4 ev) (\<lambda>currentSessionId.
     bind_io (Conversation_create ev currentSessionId) (\<lambda>c.
     return_io (Some c, currentSessionId)))"

definition resolve_session :: "env \<Rightarrow> payload \<Rightarrow> (Conversation option \<times> string) io" where
  "resolve_session ev p =
     (case sessionId p of
        None \<Rightarrow> new_session ev
      | Some sid \<Rightarrow>
          if sid \<noteq> [] then
            bind_io (Conversation_findBy_session_id sid) (\<lambda>found.
              case found of
                None \<Rightarrow> bind_io (Conversation_create ev sid) (\<lambda>c. return_io (Some c, sid))
              | Some c \<Rightarrow> return_io (Some c, session_id c))
          else new_session ev)"

text \<open>The body of the outer \<open>try\<close>.\<close>

definition sendQuestion_try :: "env \<Rightarrow> HttpContext \<Rightarrow> response io" where
  "sendQuestion_try ev ctx =
     bind_io (request_validate (body ctx)) (\<lambda>p.
     bind_io (resolve_session ev p) (\<lambda>(found, currentSessionId).
       case found of
         None \<Rightarrow>
           return_io (InternalServerError ''Failed to create or find conversation.'' None)
       | Some c \<Rightarrow>
           bind_io (Message_create ev sender_user (JStr (question p))) (\<lambda>userMessage.
           let botResponseText = ask_chatbot ev currentSessionId (question p) in
           bind_io (Message_create ev sender_bot botResponseText) (\<lambda>botMessage.
           bind_io (Conversation_save ev c (Some (msg_id botMessage))
                      (Some (message botMessage))) (\<lambda>u.
           return_io (Ok_answer currentSessionId botResponseText))))))"

text \<open>
  The outer \<open>catch\<close>: an exception whose \<open>messages\<close> has an \<open>errors\<close> list is a
  400, anything else a 500. A validation exception has the list when the request
  accepts JSON, which the model takes every request to \<open>/questions\<close> to do.
\<close>

definition sendQuestion :: "env \<Rightarrow> HttpContext \<Rightarrow> world \<Rightarrow> response \<times> world" where
  "sendQuestion ev ctx w =
     (case sendQuestion_try ev ctx w of
        (Inr r, w') \<Rightarrow> (r, w')
      | (Inl (ValidationException errs), w') \<Rightarrow> (BadRequest errs, w')
      | (Inl e, w') \<Rightarrow>
          (InternalServerError ''An unexpected error occurred.'' (Some (error_message e)), w'))"

section \<open>Reading conversations\<close>

text \<open>
  The Conversation model: its attributes, and the foreign key it declares for the
  relation \<open>lastMessage\<close>, \<^verbatim>\<open>@belongsTo(() => Message, { foreignKey: 'messages_id' })\<close>.
\<close>

definition Conversation_attributes :: "string list" where
  "Conversation_attributes =
     [''id'', ''session_id'', ''messagesId'', ''lastMessages'', ''createdAt'', ''updatedAt'']"

definition lastMessage_foreignKey :: string where
  "lastMessage_foreignKey = ''messages_id''"

text \<open>
  \<open>preload('lastMessage')\<close> on a query. The ORM sets the relation up at this call,
  before any query runs: the foreign key must be the name of an attribute of the
  model, or the call throws. The model has the attribute \<open>messagesId\<close>, whose column
  is \<open>messages_id\<close>; the relation is declared with the name of the column.
\<close>

definition preload_lastMessage :: "unit io" where
  "preload_lastMessage =
     (if lastMessage_foreignKey \<in> set Conversation_attributes then return_io ()
      else throw_io (Exception E_MISSING_MODEL_ATTRIBUTE))"

text \<open>
  A row with the relation resolved: the message the \<open>messages_id\<close> column refers to,
  or null.
\<close>

definition with_lastMessage :: "world \<Rightarrow> Conversation \<Rightarrow> ConversationJSON" where
  "with_lastMessage w c =
     \<lparr>conversation = c,
      lastMessage =
        (case messagesId c of
           None \<Rightarrow> None
         | Some m \<Rightarrow> find (\<lambda>x. msg_id x = m) (messages w))\<rparr>"

text \<open>\<open>.first()\<close> of the query with \<open>where('session_id', v)\<close>.\<close>

definition Conversation_first_where_session_id ::
    "string option \<Rightarrow> ConversationJSON option io" where
  "Conversation_first_where_session_id v =
     bound v (\<lambda>sid.
       storage (\<lambda>w.
         case uuid_in sid of
           None \<Rightarrow> (Inl (Exception invalid_uuid), w)
         | Some u \<Rightarrow>
             (Inr (map_option (with_lastMessage w)
                    (find (\<lambda>c. session_id c = u) (conversations w))), w)))"

text \<open>\<open>.first()\<close> of the query with \<open>where('id', v)\<close>.\<close>

definition Conversation_first_where_id :: "string option \<Rightarrow> ConversationJSON option io" where
  "Conversation_first_where_id v =
     bound v (\<lambda>s.
       storage (\<lambda>w.
         case where_primary_key s conv_id (conversations w) of
           Inl e \<Rightarrow> (Inl e, w)
         | Inr found \<Rightarrow> (Inr (map_option (with_lastMessage w) found), w)))"

text \<open>\<open>RegExp.prototype.test\<close> converts its argument to a string first.\<close>

definition regex_test_uuid :: "string option \<Rightarrow> bool" where
  "regex_test_uuid v = is_uuid (case v of None \<Rightarrow> ''undefined'' | Some s \<Rightarrow> s)"

text \<open>
  In both branches the query is built in the order \<open>where\<close>, \<open>preload\<close>, \<open>first\<close>;
  \<open>where\<close> only records its condition, so the first call that can throw is
  \<open>preload\<close>.
\<close>

definition getConversationMessages_try :: "env \<Rightarrow> HttpContext \<Rightarrow> response io" where
  "getConversationMessages_try ev ctx =
     (let idOrUuid = params ctx ''id'';
          isUUID = regex_test_uuid idOrUuid
      in bind_io preload_lastMessage (\<lambda>preloaded.
         bind_io (if isUUID then Conversation_first_where_session_id idOrUuid
                  else Conversation_first_where_id idOrUuid) (\<lambda>found.
         case found of
           None \<Rightarrow> return_io (NotFound ''Conversation not found.'')
         | Some c \<Rightarrow> return_io (Ok_conversation c))))"

definition getConversationMessages ::
    "env \<Rightarrow> HttpContext \<Rightarrow> world \<Rightarrow> response \<times> world" where
  "getConversationMessages ev ctx =
     catch_all ''Failed to retrieve conversation details.'' (getConversationMessages_try ev ctx)"

text \<open>A query-string value with its default: \<open>const { page = 1, limit = 10 }\<close>.\<close>

definition qs_default :: "string option \<Rightarrow> int \<Rightarrow> jsval" where
  "qs_default v dflt = (case v of None \<Rightarrow> JNum dflt | Some s \<Rightarrow> JStr s)"

text \<open>
  The query of \<open>getAllConversations\<close>: every conversation, or those with the given
  session id when \<open>sessionId\<close> is truthy.
\<close>

definition where_session_id :: "string option \<Rightarrow> Conversation list \<Rightarrow> error + Conversation list" where
  "where_session_id sid rows =
     (case sid of
        None \<Rightarrow> Inr rows
      | Some s \<Rightarrow>
          if s \<noteq> [] then
            (case uuid_in s of
               None \<Rightarrow> Inl (Exception invalid_uuid)
             | Some u \<Rightarrow> Inr (filter (\<lambda>c. session_id c = u) rows))
          else Inr rows)"

text \<open>\<open>query.paginate(page, limit)\<close>: the matching rows, each with its last message, one page.\<close>

definition Conversation_paginate ::
    "env \<Rightarrow> string option \<Rightarrow> jsval \<Rightarrow> jsval \<Rightarrow> Paginated io" where
  "Conversation_paginate ev sid page limit =
     storage (\<lambda>w.
       case where_session_id sid (conversations w) of
         Inl e \<Rightarrow> (Inl e, w)
       | Inr rows \<Rightarrow>
           (case paginate ev page limit (map (with_lastMessage w) rows) of
              Inl e \<Rightarrow> (Inl (Exception e), w)
            | Inr pg \<Rightarrow> (Inr pg, w)))"

definition getAllConversations_try :: "env \<Rightarrow> HttpContext \<Rightarrow> response io" where
  "getAllConversations_try ev ctx =
     (let sessionId = qs ctx ''sessionId'';
          page = qs_default (qs ctx ''page'') 1;
          limit = qs_default (qs ctx ''limit'') 10
      in bind_io preload_lastMessage (\<lambda>preloaded.
         bind_io (Conversation_paginate ev sessionId page limit) (\<lambda>conversations.
         return_io (Ok_page conversations))))"

definition getAllConversations :: "env \<Rightarrow> HttpContext \<Rightarrow> world \<Rightarrow> response \<times> world" where
  "getAllConversations ev ctx =
     catch_all ''Failed to retrieve conversations.'' (getAllConversations_try ev ctx)"

section \<open>Deleting\<close>

text \<open>\<open>Conversation.find(params.id)\<close>: by primary key.\<close>

definition Conversation_find :: "string option \<Rightarrow> Conversation option io" where
  "Conversation_find k =
     bound k (\<lambda>s.
       storage (\<lambda>w.
         case where_primary_key s conv_id (conversations w) of
           Inl e \<Rightarrow> (Inl e, w)
         | Inr found \<Rightarrow> (Inr found, w)))"

text \<open>\<open>conversation.delete()\<close>: a DELETE by primary key.\<close>

definition Conversation_delete :: "Conversation \<Rightarrow> unit io" where
  "Conversation_delete c =
     storage (\<lambda>w.
       (Inr (), w\<lparr>conversations := filter (\<lambda>r. conv_id r \<noteq> conv_id c) (conversations w)\<rparr>))"

definition deleteConversation_try :: "env \<Rightarrow> HttpContext \<Rightarrow> response io" where
  "deleteConversation_try ev ctx =
     bind_io (Conversation_find (params ctx ''id'')) (\<lambda>found.
       case found of
         None \<Rightarrow> return_io (NotFound ''Conversation not found.'')
       | Some c \<Rightarrow> bind_io (Conversation_delete c) (\<lambda>u. return_io NoContent))"

definition deleteConversation :: "env \<Rightarrow> HttpContext \<Rightarrow> world \<Rightarrow> response \<times> world" where
  "deleteConversation ev ctx =
     catch_all ''Failed to delete conversation.'' (deleteConversation_try ev ctx)"

text \<open>\<open>Message.find(params.id)\<close>.\<close>

definition Message_find :: "string option \<Rightarrow> Message option io" where
  "Message_find k =
     bound k (\<lambda>s.
       storage (\<lambda>w.
         case where_primary_key s msg_id (messages w) of
           Inl e \<Rightarrow> (Inl e, w)
         | Inr found \<Rightarrow> (Inr found, w)))"

text \<open>\<open>Conversation.query().where('messages_id', message.id)\<close>.\<close>

definition Conversation_where_messages_id :: "nat \<Rightarrow> Conversation list io" where
  "Conversation_where_messages_id m =
     storage (\<lambda>w. (Inr (filter (\<lambda>c. messagesId c = Some m) (conversations w)), w))"

text \<open>The \<open>for\<close> loop of \<open>deleteMessage\<close>: clear both fields, save, next.\<close>

fun clear_references :: "env \<Rightarrow> Conversation list \<Rightarrow> unit io" where
  "clear_references ev [] = return_io ()"
| "clear_references ev (conv # rest) =
     bind_io (Conversation_save ev conv None None) (\<lambda>u. clear_references ev rest)"

text \<open>
  \<open>message.delete()\<close>. The migration's foreign key is \<open>ON DELETE SET NULL\<close>: the
  database itself nulls \<open>messages_id\<close> (and nothing else) in the rows that still point
  at the deleted message.
\<close>

definition Message_delete :: "Message \<Rightarrow> unit io" where
  "Message_delete m =
     storage (\<lambda>w.
       (Inr (),
        w\<lparr>messages := filter (\<lambda>x. msg_id x \<noteq> msg_id m) (messages w),
          conversations :=
            map (\<lambda>r. if messagesId r = Some (msg_id m) then r\<lparr>messagesId := None\<rparr> else r)
              (conversations w)\<rparr>))"

definition deleteMessage_try :: "env \<Rightarrow> HttpContext \<Rightarrow> response io" where
  "deleteMessage_try ev ctx =
     bind_io (Message_find (params ctx ''id'')) (\<lambda>found.
       case found of
         None \<Rightarrow> return_io (NotFound ''Message not found.'')
       | Some m \<Rightarrow>
           bind_io (Conversation_where_messages_id (msg_id m)) (\<lambda>conversationsToUpdate.
           bind_io (clear_references ev conversationsToUpdate) (\<lambda>u.
           bind_io (Message_delete m) (\<lambda>u'.
           return_io NoContent))))"

definition deleteMessage :: "env \<Rightarrow> HttpContext \<Rightarrow> world \<Rightarrow> response \<times> world" where
  "deleteMessage ev ctx =
     catch_all ''Failed to delete message.'' (deleteMessage_try ev ctx)"

section \<open>Routes\<close>

datatype http_method = GET | POST | DELETE

text \<open>A route handler: a closure, or \<open>'ConversationsController.<name>'\<close>.\<close>

datatype handler = Closure | ConversationsController string

definition routes :: "(http_method \<times> string \<times> handler) list" where
  "routes =
     [(GET, ''/'', Closure),
      (POST, ''/questions'', ConversationsController ''sendQuestion''),
      (GET, ''/conversation'', ConversationsController ''getAllConversations''),
      (GET, ''/conversation/:id_or_uuid'', ConversationsController ''getConversationById''),
      (DELETE, ''/conversation/:id'', ConversationsController ''deleteConversation''),
      (DELETE, ''/message/:id'', ConversationsController ''deleteMessage'')]"

text \<open>The methods the controller class defines.\<close>

definition controller_method ::
    "string \<Rightarrow> (env \<Rightarrow> HttpContext \<Rightarrow> world \<Rightarrow> response \<times> world) option" where
  "controller_method name =
     (if name = ''sendQuestion'' then Some sendQuestion
      else if name = ''getAllConversations'' then Some getAllConversations
      else if name = ''getConversationMessages'' then Some getConversationMessages
      else if name = ''deleteConversation'' then Some deleteConversation
      else if name = ''deleteMessage'' then Some deleteMessage
      else None)"

text \<open>The segments of a path or of a route pattern: split at \<open>/\<close>, empty ones dropped.\<close>

fun segments_acc :: "string \<Rightarrow> string \<Rightarrow> string list" where
  "segments_acc acc [] = (if acc = [] then [] else [rev acc])"
| "segments_acc acc (c # s) =
     (if c = CHR ''/'' then (if acc = [] then [] else [rev acc]) @ segments_acc [] s
      else segments_acc (c # acc) s)"

definition segments :: "string \<Rightarrow> string list" where
  "segments s = segments_acc [] s"

text \<open>A pattern segment \<open>:name\<close> binds the parameter \<open>name\<close>; any other must be equal.\<close>

fun match_segments :: "string list \<Rightarrow> string list \<Rightarrow> (string \<times> string) list option" where
  "match_segments [] [] = Some []"
| "match_segments (p # ps) (s # ss) =
     (case p of
        c # name \<Rightarrow>
          (if c = CHR '':'' then map_option ((#) (name, s)) (match_segments ps ss)
           else if p = s then match_segments ps ss else None)
      | [] \<Rightarrow> if p = s then match_segments ps ss else None)"
| "match_segments ps ss = None"

fun find_route ::
    "(http_method \<times> string \<times> handler) list \<Rightarrow> http_method \<Rightarrow> string \<Rightarrow>
     (handler \<times> (string \<times> string) list) option" where
  "find_route [] m path = None"
| "find_route ((m', pattern, h) # rs) m path =
     (if m' = m then
        (case match_segments (segments pattern) (segments path) of
           Some ps \<Rightarrow> Some (h, ps)
         | None \<Rightarrow> find_route rs m path)
      else find_route rs m path)"

text \<open>
  What the framework raises before any handler runs: no route for the request, or a
  route whose handler names a method the controller does not have.
\<close>

datatype framework_error = E_ROUTE_NOT_FOUND | Missing_method string

text \<open>
  One request: find the route, bind its parameters as \<open>params\<close>, call the handler.
\<close>

definition dispatch ::
    "env \<Rightarrow> http_method \<Rightarrow> string \<Rightarrow> (string \<rightharpoonup> string) \<Rightarrow> jsval \<Rightarrow> world \<Rightarrow>
     (framework_error + response) \<times> world" where
  "dispatch ev m path query b w =
     (case find_route routes m path of
        None \<Rightarrow> (Inl E_ROUTE_NOT_FOUND, w)
      | Some (h, ps) \<Rightarrow>
          (case h of
             Closure \<Rightarrow> (Inr Ok_hello, w)
           | ConversationsController name \<Rightarrow>
               (case controller_method name of
                  None \<Rightarrow> (Inl (Missing_method name), w)
                | Some f \<Rightarrow>
                    (case f ev \<lparr>params = map_of ps, qs = query, body = b\<rparr> w of
                       (r, w') \<Rightarrow> (Inr r, w')))))"

section \<open>Well-formed stores\<close>

text \<open>
  What the schema guarantees of every stored state: primary keys are unique and were
  handed out by the serial counters, session ids are unique.
\<close>

definition keys_ok :: "world \<Rightarrow> bool" where
  "keys_ok w =
     (distinct (map conv_id (conversations w)) \<and>
      distinct (map session_id (conversations w)) \<and>
      distinct (map msg_id (messages w)) \<and>
      list_all (\<lambda>c. conv_id c \<le> conversations_seq w) (conversations w) \<and>
      list_all (\<lambda>m. msg_id m \<le> messages_seq w) (messages w))"

text \<open>
  The invariant of the data model: a last-message reference that is not null refers to
  an existing message.
\<close>

definition references_ok :: "world \<Rightarrow> bool" where
  "references_ok w =
     list_all (\<lambda>c. case messagesId c of
                      None \<Rightarrow> True
                    | Some m \<Rightarrow> m \<in> set (map msg_id (messages w)))
       (conversations w)"

text \<open>A computation keeps a property of the world when, started where it holds, it ends
  where it holds, whether it returns or throws.\<close>

definition keeps :: "(world \<Rightarrow> bool) \<Rightarrow> 'a io \<Rightarrow> bool" where
  "keeps P m = (\<forall>w. P w \<longrightarrow> P (snd (m w)))"

definition store_ok :: "world \<Rightarrow> bool" where
  "store_ok w = (keys_ok w \<and> references_ok w)"

definition empty_store :: world where
  "empty_store =
     \<lparr>conversations = [], messages = [], conversations_seq = 0, messages_seq = 0,
      faults = [], uuid_calls = 0\<rparr>"

section \<open>The rows a request writes\<close>

text \<open>
  Names for the rows \<open>sendQuestion\<close> and \<open>deleteMessage\<close> leave behind, used to state
  their effect: the two messages created from a world \<open>w\<close>, a conversation after
  step 4 made it point at a message, and a conversation with its reference cleared.
\<close>

definition user_row :: "env \<Rightarrow> world \<Rightarrow> string \<Rightarrow> Message" where
  "user_row ev w q =
     \<lparr>msg_id = Suc (messages_seq w), senderType = sender_user, message = JStr q,
      msg_createdAt = now ev, msg_updatedAt = now ev\<rparr>"

definition bot_row :: "env \<Rightarrow> world \<Rightarrow> jsval \<Rightarrow> Message" where
  "bot_row ev w txt =
     \<lparr>msg_id = Suc (Suc (messages_seq w)), senderType = sender_bot, message = txt,
      msg_createdAt = now ev, msg_updatedAt = now ev\<rparr>"

definition point_at :: "env \<Rightarrow> nat \<Rightarrow> jsonb option \<Rightarrow> Conversation \<Rightarrow> Conversation" where
  "point_at ev m j r = r\<lparr>messagesId := Some m, lastMessages := j, updatedAt := now ev\<rparr>"

definition cleared :: "env \<Rightarrow> Conversation \<Rightarrow> Conversation" where
  "cleared ev r = r\<lparr>messagesId := None, lastMessages := None, updatedAt := now ev\<rparr>"

section \<open>A small store to run the handlers on\<close>

text \<open>
  Inputs for the examples. The chatbot answers \<open>Halo\<close>. Every value the examples
  bind is a string, so of the driver's conversions only the one of booleans is given.
  The paginator is one for whole numbers: the rows of the page, an error for page 0;
  when page or size is no whole number it returns every row.
\<close>

definition whole :: "jsval \<Rightarrow> nat option" where
  "whole v =
     (case v of
        JNum n \<Rightarrow> if 0 \<le> n then Some (nat n) else None
      | JStr s \<Rightarrow> parse_nat s
      | _ \<Rightarrow> None)"

definition example_paginate ::
    "jsval \<Rightarrow> jsval \<Rightarrow> ConversationJSON list \<Rightarrow> string + Paginated" where
  "example_paginate page limit rows =
     (case (whole page, whole limit) of
        (Some p, Some l) \<Rightarrow>
          if p = 0 then Inl ''A non-negative integer must be provided to offset.''
          else Inr \<lparr>meta_total = length rows, meta_perPage = limit, meta_currentPage = page,
                    meta_lastPage =
                      (if l = 0 then None else Some (max 1 ((length rows + l - 1) div l))),
                    data = take l (drop ((p - 1) * l) rows)\<rparr>
      | _ \<Rightarrow>
          Inr \<lparr>meta_total = length rows, meta_perPage = limit, meta_currentPage = page,
               meta_lastPage = None, data = rows\<rparr>)"

definition example_env :: env where
  "example_env =
     \<lparr>uuidv4 = (\<lambda>k. if k = 0 then ''3b241101-e2bb-4255-8caf-4136c566a962''
                     else ''9f0c1a2e-7d44-4b8a-9a57-0c2d5e6f7a81''),
      axios_post = (\<lambda>url b. Inr (JObj [(''message'', JStr ''Halo'')])),
      now = 7,
      prepareValue = (\<lambda>v. case v of JBool b \<Rightarrow> if b then ''true'' else ''false'' | _ \<Rightarrow> []),
      paginate = example_paginate\<rparr>"

text \<open>
  The same, with a chatbot that is down, with one that answers the empty string, and,
  at an earlier time, with one whose answer is the text \<open>42\<close>.
\<close>

definition example_env_down :: env where
  "example_env_down = example_env\<lparr>axios_post := (\<lambda>url b. Inl ''timeout of 0ms exceeded'')\<rparr>"

definition example_env_empty :: env where
  "example_env_empty = example_env\<lparr>axios_post := (\<lambda>url b. Inr (JObj [(''message'', JStr [])]))\<rparr>"

definition example_env_number :: env where
  "example_env_number =
     example_env\<lparr>axios_post := (\<lambda>url b. Inr (JObj [(''message'', JStr ''42'')])), now := 3\<rparr>"

definition example_message :: Message where
  "example_message =
     \<lparr>msg_id = 2, senderType = sender_bot, message = JStr ''42'',
      msg_createdAt = 3, msg_updatedAt = 3\<rparr>"

definition example_conversation :: Conversation where
  "example_conversation =
     \<lparr>conv_id = 1, session_id = ''3b241101-e2bb-4255-8caf-4136c566a962'',
      messagesId = Some 2, lastMessages = Some (Jsonb ''42''), createdAt = 3, updatedAt = 3\<rparr>"

text \<open>
  One conversation pointing at its bot message; one UUID issued so far. It is the
  store the first question leaves behind when the chatbot's answer is \<open>42\<close>, a text
  that is JSON.
\<close>

definition example_world :: world where
  "example_world =
     \<lparr>conversations = [example_conversation],
      messages =
        [\<lparr>msg_id = 1, senderType = sender_user, message = JStr ''Apa kabar?'',
          msg_createdAt = 3, msg_updatedAt = 3\<rparr>,
         example_message],
      conversations_seq = 1, messages_seq = 2, faults = [], uuid_calls = 1\<rparr>"

definition example_first :: HttpContext where
  "example_first =
     \<lparr>params = Map.empty, qs = Map.empty,
      body = JObj [(''question'', JStr '' Apa kabar? '')]\<rparr>"

definition example_question :: HttpContext where
  "example_question =
     \<lparr>params = Map.empty, qs = Map.empty,
      body = JObj [(''question'', JStr '' Siapa kamu? '')]\<rparr>"

definition example_followup :: HttpContext where
  "example_followup =
     \<lparr>params = Map.empty, qs = Map.empty,
      body = JObj [(''question'', JStr ''Siapa kamu?''),
                   (''sessionId'', JStr ''3b241101-e2bb-4255-8caf-4136c566a962'')]\<rparr>"

text \<open>A question under a well-formed session id that no stored conversation has.\<close>

definition example_unseen :: HttpContext where
  "example_unseen =
     \<lparr>params = Map.empty, qs = Map.empty,
      body = JObj [(''question'', JStr ''Siapa kamu?''),
                   (''sessionId'', JStr ''9f0c1a2e-7d44-4b8a-9a57-0c2d5e6f7a81'')]\<rparr>"

text \<open>A request that carries only the path parameter \<open>id\<close>.\<close>

definition with_id :: "string \<Rightarrow> HttpContext" where
  "with_id v = \<lparr>params = [''id'' \<mapsto> v], qs = Map.empty, body = JNull\<rparr>"

text \<open>Page 999 of size 10, and a store of three conversations that have no messages yet.\<close>

definition example_page :: HttpContext where
  "example_page =
     \<lparr>params = Map.empty, qs = [''page'' \<mapsto> ''999'', ''limit'' \<mapsto> ''10''], body = JNull\<rparr>"

definition example_three :: world where
  "example_three =
     \<lparr>conversations =
        [\<lparr>conv_id = 1, session_id = ''3b241101-e2bb-4255-8caf-4136c566a962'',
          messagesId = None, lastMessages = None, createdAt = 3, updatedAt = 3\<rparr>,
         \<lparr>conv_id = 2, session_id = ''9f0c1a2e-7d44-4b8a-9a57-0c2d5e6f7a81'',
          messagesId = None, lastMessages = None, createdAt = 4, updatedAt = 4\<rparr>,
         \<lparr>conv_id = 3, session_id = ''0a1b2c3d-4e5f-4a6b-8c7d-9e0f1a2b3c4d'',
          messagesId = None, lastMessages = None, createdAt = 5, updatedAt = 5\<rparr>],
      messages = [], conversations_seq = 3, messages_seq = 0, faults = [], uuid_calls = 2\<rparr>"

text \<open>The stored example with a database that refuses the next connection.\<close>

definition example_outage :: world where
  "example_outage = example_world\<lparr>faults := [Some ''connect ECONNREFUSED 127.0.0.1:5432'']\<rparr>"

section \<open>Facts about the storage layer and the session resolution\<close>

lemma storage_no_faults: "faults w = [] \<Longrightarrow> storage f w = f w"
  by (simp add: storage_def)


lemma bind_io_Inl: "m w = (Inl e, w1) \<Longrightarrow> bind_io m f w = (Inl e, w1)"
  by (simp add: bind_io_def)

text \<open>A run of digits has no white space to trim and reads as itself.\<close>

lemma digit_not_space: "is_digit c \<Longrightarrow> \<not> is_space c"
  by (auto simp: is_digit_def is_space_def)

lemma trim_digits:
  assumes "list_all is_digit s"
  shows "trim s = s"
proof -
  have d: "dropWhile is_space t = t" if "list_all is_digit t" for t
    using that by (cases t) (simp_all add: digit_not_space)
  have "list_all is_digit (rev s)" using assms by (simp add: list_all_iff)
  then show ?thesis using assms by (simp add: trim_def d)
qed

lemma primary_key_parsed:
  assumes "parse_nat v = Some n"
  shows "primary_key v = Some (int n)"
proof -
  have a: "v \<noteq> []" "list_all is_digit v"
    using assms by (simp_all add: parse_nat_def split: if_splits)
  then obtain c r where v: "v = c # r" by (cases v) simp_all
  have "is_digit c" using a(2) v by simp
  then have "c \<noteq> CHR ''-''" "c \<noteq> CHR ''+''" by (auto simp: is_digit_def)
  moreover have "trim (c # r) = c # r" using trim_digits [OF a(2)] v by simp
  ultimately show ?thesis
    using assms v by (simp add: primary_key_def)
qed

lemma where_primary_key_found:
  assumes "parse_nat v = Some n" and "find (\<lambda>r. key r = n) rows = Some r"
  shows "where_primary_key v key rows = Inr (Some r)"
  using assms(2) by (simp add: where_primary_key_def primary_key_parsed [OF assms(1)])

text \<open>The keys \<open>-1\<close> and \<open>99999999999\<close> name no row: the one is not found, the other refused.\<close>

lemma where_primary_key_examples:
  "where_primary_key ''-1'' conv_id (conversations example_world) = Inr None"
  "where_primary_key ''99999999999'' conv_id (conversations example_world) =
     Inl (Exception integer_out_of_range)"
  "where_primary_key ''1x'' conv_id (conversations example_world) =
     Inl (Exception invalid_integer)"
  by (simp_all add: where_primary_key_def primary_key_def trim_def is_space_def parse_nat_def
      is_digit_def digit_val_def example_world_def example_conversation_def)

section \<open>What the jsonb column accepts\<close>

text \<open>
  A text that, after white space, starts with a character no JSON value starts with
  is not JSON.
\<close>

lemma not_json_text:
  assumes "skip_ws s = c # r"
      and "c \<notin> set [CHR 0x22, CHR ''['', CHR ''{'', CHR ''t'', CHR ''f'', CHR ''n'', CHR ''-'']"
      and "\<not> is_digit c"
  shows "\<not> json_text s"
proof -
  have n: "2 * length s + 2 = Suc (2 * length s + 1)" by simp
  have "json_integer (c # r) = None"
    using assms(3) by (auto simp: json_integer_def is_digit_def)
  then have "json_value (Suc (2 * length s + 1)) (c # r) = None"
    using assms(2) by (simp add: json_number_def)
  then show ?thesis
    unfolding json_text_def n assms(1) by simp
qed

lemma fallback_not_json:
  "\<not> json_text ''Sorry, I could not get a response from the chatbot at this time.''"
  by (rule not_json_text [of _ "CHR ''S''"])
     (simp_all add: skip_ws_def json_ws_def is_digit_def)

lemma Halo_not_json: "\<not> json_text ''Halo''"
  by (rule not_json_text [of _ "CHR ''H''"])
     (simp_all add: skip_ws_def json_ws_def is_digit_def)

lemma number_json: "json_text ''42''"
  by (simp add: json_text_def eval_nat_numeral skip_ws_def json_ws_def json_number_def
      json_integer_def json_fraction_def json_exponent_def is_digit_def)

lemma number_no_string: "json_string ''42'' = None"
  by (simp add: json_string_def skip_ws_def json_ws_def)

text \<open>The fallback is never accepted by the column, whatever the driver.\<close>

lemma fallback_refused:
  "jsonb_in (bound_text ev fallback) = None"
  by (simp add: jsonb_in_def bound_text_def fallback_def fallback_not_json)

section \<open>The steps of sendQuestion\<close>

lemma resolve_existing:
  assumes "sessionId p = Some sid" "sid \<noteq> []" "faults w = []" "uuid_in sid = Some u"
      and "find (\<lambda>c. session_id c = u) (conversations w) = Some c"
  shows "resolve_session ev p w = (Inr (Some c, u), w)"
proof -
  have "session_id c = u" using assms(5) by (auto simp: find_Some_iff)
  then show ?thesis using assms
    by (simp add: resolve_session_def bind_io_def return_io_def
        Conversation_findBy_session_id_def storage_no_faults)
qed

lemma resolve_unknown:
  assumes "sessionId p = Some sid" "sid \<noteq> []" "faults w = []" "uuid_in sid = Some u"
      and "find (\<lambda>c. session_id c = u) (conversations w) = None"
  shows "resolve_session ev p w =
           (Inr (Some \<lparr>conv_id = Suc (conversations_seq w), session_id = sid,
                       messagesId = None, lastMessages = None,
                       createdAt = now ev, updatedAt = now ev\<rparr>, sid),
            w\<lparr>conversations := conversations w @
                  [\<lparr>conv_id = Suc (conversations_seq w), session_id = u,
                    messagesId = None, lastMessages = None,
                    createdAt = now ev, updatedAt = now ev\<rparr>],
              conversations_seq := Suc (conversations_seq w)\<rparr>)"
proof -
  have "u \<notin> set (map session_id (conversations w))"
    using assms(5) by (auto simp: find_None_iff)
  then show ?thesis using assms
    by (simp add: resolve_session_def bind_io_def return_io_def
        Conversation_findBy_session_id_def Conversation_create_def storage_no_faults Let_def)
qed

lemma resolve_fresh:
  assumes "sessionId p = None \<or> sessionId p = Some []" "faults w = []"
      and "uuid_in (uuidv4 ev (uuid_calls w)) = Some u"
      and "u \<notin> set (map session_id (conversations w))"
  shows "resolve_session ev p w =
           (Inr (Some \<lparr>conv_id = Suc (conversations_seq w),
                       session_id = uuidv4 ev (uuid_calls w),
                       messagesId = None, lastMessages = None,
                       createdAt = now ev, updatedAt = now ev\<rparr>,
                 uuidv4 ev (uuid_calls w)),
            w\<lparr>uuid_calls := Suc (uuid_calls w),
              conversations := conversations w @
                  [\<lparr>conv_id = Suc (conversations_seq w), session_id = u,
                    messagesId = None, lastMessages = None,
                    createdAt = now ev, updatedAt = now ev\<rparr>],
              conversations_seq := Suc (conversations_seq w)\<rparr>)"
  using assms
  by (auto simp: resolve_session_def new_session_def uuid_v4_def bind_io_def return_io_def
      Conversation_create_def storage_no_faults Let_def)

text \<open>
  Steps 1 to 4 of \<open>sendQuestion\<close>, once the session is resolved in a world \<open>w1\<close>:
  both messages are stored, and then the save decides. When the text bound to
  \<open>last_messages\<close> is not JSON the save throws, and the request answers 500 with both
  messages stored and the conversation as it was.
\<close>

lemma sendQuestion_save_refused:
  assumes "validate (body ctx) = Inr p"
      and "resolve_session ev p w = (Inr (Some c, sid), w1)"
      and "faults w1 = []"
      and "\<not> unchanged (lastMessages c) (ask_chatbot ev sid (question p))"
      and "\<not> json_text (bound_text ev (ask_chatbot ev sid (question p)))"
  shows "sendQuestion ev ctx w =
           (InternalServerError ''An unexpected error occurred.'' (Some invalid_json),
            w1\<lparr>messages := messages w1 @
                  [user_row ev w1 (question p),
                   bot_row ev w1 (ask_chatbot ev sid (question p))],
               messages_seq := Suc (Suc (messages_seq w1))\<rparr>)"
  using assms
  by (simp add: sendQuestion_def sendQuestion_try_def request_validate_def bind_io_def
      return_io_def Message_create_def Conversation_save_def last_messages_update_def
      jsonb_in_def storage_no_faults Let_def user_row_def bot_row_def)

text \<open>When it is JSON, the row is pointed at the bot message and the answer is 200.\<close>

lemma sendQuestion_saved:
  assumes "validate (body ctx) = Inr p"
      and "resolve_session ev p w = (Inr (Some c, sid), w1)"
      and "faults w1 = []"
      and "\<not> unchanged (lastMessages c) (ask_chatbot ev sid (question p))"
      and "json_text (bound_text ev (ask_chatbot ev sid (question p)))"
  shows "sendQuestion ev ctx w =
           (Ok_answer sid (ask_chatbot ev sid (question p)),
            w1\<lparr>messages := messages w1 @
                  [user_row ev w1 (question p),
                   bot_row ev w1 (ask_chatbot ev sid (question p))],
               messages_seq := Suc (Suc (messages_seq w1)),
               conversations :=
                 map (\<lambda>r. if conv_id r = conv_id c
                          then point_at ev (Suc (Suc (messages_seq w1)))
                                 (Some (Jsonb (bound_text ev (ask_chatbot ev sid (question p))))) r
                          else r) (conversations w1)\<rparr>)"
  using assms
  by (simp add: sendQuestion_def sendQuestion_try_def request_validate_def bind_io_def
      return_io_def Message_create_def Conversation_save_def last_messages_update_def
      jsonb_in_def storage_no_faults Let_def user_row_def bot_row_def point_at_def)

text \<open>The requests and the session ids of the examples.\<close>

lemma uuid_pairs_numeral:
  "uuid_pairs (numeral n) s =
     (case s of
        a # b # r \<Rightarrow>
          if is_hex a \<and> is_hex b then
            map_option (\<lambda>(ds, rest). (lower_hex a # lower_hex b # ds, rest))
              (uuid_pairs (pred_numeral n)
                 (case r of
                    [] \<Rightarrow> r
                  | c # r' \<Rightarrow>
                      if c = CHR ''-'' \<and> even (pred_numeral n) \<and> pred_numeral n \<noteq> 0
                      then r' else r))
          else None
      | _ \<Rightarrow> None)"
  by (simp add: numeral_eq_Suc)

lemma example_uuids:
  "uuid_in ''3b241101-e2bb-4255-8caf-4136c566a962'' = Some ''3b241101-e2bb-4255-8caf-4136c566a962''"
  "uuid_in ''9f0c1a2e-7d44-4b8a-9a57-0c2d5e6f7a81'' = Some ''9f0c1a2e-7d44-4b8a-9a57-0c2d5e6f7a81''"
  by (simp_all add: uuid_in_def uuid_pairs_numeral is_hex_def lower_hex_def uuid_out_def)

lemma example_payloads:
  "validate (body example_first) = Inr \<lparr>question = ''Apa kabar?'', sessionId = None\<rparr>"
  "validate (body example_question) = Inr \<lparr>question = ''Siapa kamu?'', sessionId = None\<rparr>"
  "validate (body example_followup) =
     Inr \<lparr>question = ''Siapa kamu?'',
          sessionId = Some ''3b241101-e2bb-4255-8caf-4136c566a962''\<rparr>"
  "validate (body example_unseen) =
     Inr \<lparr>question = ''Siapa kamu?'',
          sessionId = Some ''9f0c1a2e-7d44-4b8a-9a57-0c2d5e6f7a81''\<rparr>"
  by (simp_all add: example_first_def example_question_def example_followup_def
      example_unseen_def validate_def validate_question_def validate_sessionId_def trim_def
      is_space_def is_uuid_v4_def is_hex_def eval_nat_numeral)

text \<open>
  What the validator does at the edges of the schema: a question of white space is
  accepted as the empty string, the empty string is not; a session id must be a UUID
  of version 4, and an empty one counts as not given.
\<close>

lemma validate_examples:
  "validate (JObj [(''question'', JStr ''   '')]) = Inr \<lparr>question = [], sessionId = None\<rparr>"
  "validate (JObj [(''question'', JStr [])]) = Inl [(''question'', ''required'')]"
  "validate (JObj [(''question'', JStr ''Halo''),
                   (''sessionId'', JStr ''a1b2c3d4-e5f6-7890-1234-567890abcdef'')]) =
     Inl [(''sessionId'', ''uuid'')]"
  "validate (JObj [(''question'', JStr ''Halo''), (''sessionId'', JStr [])]) =
     Inr \<lparr>question = ''Halo'', sessionId = None\<rparr>"
  by (simp_all add: validate_def validate_question_def validate_sessionId_def trim_def
      is_space_def is_uuid_v4_def is_hex_def eval_nat_numeral)

text \<open>
  The first question to an empty store, answered by the chatbot with the text \<open>42\<close>:
  the save goes through, the answer is 200, and the store is the stored example.
\<close>

lemma first_question:
  "sendQuestion example_env_number example_first empty_store =
     (Ok_answer ''3b241101-e2bb-4255-8caf-4136c566a962'' (JStr ''42''), example_world)"
proof -
  let ?sid = "''3b241101-e2bb-4255-8caf-4136c566a962''"
  let ?p = "\<lparr>question = ''Apa kabar?'', sessionId = None\<rparr>"
  let ?c = "\<lparr>conv_id = 1, session_id = ?sid, messagesId = None, lastMessages = None,
             createdAt = 3, updatedAt = 3\<rparr>"
  let ?w1 = "empty_store\<lparr>uuid_calls := 1, conversations := [?c], conversations_seq := 1\<rparr>"
  have u: "uuidv4 example_env_number (uuid_calls empty_store) = ?sid"
    by (simp add: example_env_number_def example_env_def empty_store_def)
  have r: "resolve_session example_env_number ?p empty_store = (Inr (Some ?c, ?sid), ?w1)"
    using resolve_fresh [of ?p empty_store example_env_number ?sid]
    by (simp add: u example_uuids)
       (simp add: empty_store_def example_env_number_def example_env_def)
  have a: "ask_chatbot example_env_number ?sid (question ?p) = JStr ''42''"
    by (simp add: ask_chatbot_def example_env_number_def example_env_def)
  have f: "faults ?w1 = []" by (simp add: empty_store_def)
  have nu: "\<not> unchanged (lastMessages ?c) (ask_chatbot example_env_number ?sid (question ?p))"
    by (simp add: unchanged_def)
  have js: "json_text (bound_text example_env_number
                        (ask_chatbot example_env_number ?sid (question ?p)))"
    unfolding a by (simp add: bound_text_def number_json)
  note s = sendQuestion_saved [OF example_payloads(1) r f nu js, unfolded a]
  show ?thesis
    unfolding s
    by (simp add: empty_store_def example_world_def example_conversation_def
        example_message_def user_row_def bot_row_def point_at_def bound_text_def
        example_env_number_def example_env_def)
qed

section \<open>The external call and the request\<close>

text \<open>
  Claim C1 fails on the code. The stored example gets a follow-up question while the
  chatbot is down. The inner \<open>catch\<close> absorbs the failure and the fallback is stored
  as the bot message; then step 4 assigns the fallback to \<open>lastMessages\<close> and saves,
  the database refuses the text for the \<open>jsonb\<close> column \<open>last_messages\<close>, and the
  outer \<open>catch\<close> answers 500. The conversation still points at the older message.
\<close>

theorem sendQuestion_fallback_answers_500:
  "axios_post example_env_down externalApiUrl
     (chatbot_request ''3b241101-e2bb-4255-8caf-4136c566a962'' ''Siapa kamu?'') =
     Inl ''timeout of 0ms exceeded'' \<and>
   ask_chatbot example_env_down ''3b241101-e2bb-4255-8caf-4136c566a962'' ''Siapa kamu?'' =
     fallback \<and>
   jsonb_in (bound_text example_env_down fallback) = None \<and>
   sendQuestion example_env_down example_followup example_world =
     (InternalServerError ''An unexpected error occurred.'' (Some invalid_json),
      example_world
        \<lparr>messages := messages example_world @
           [\<lparr>msg_id = 3, senderType = sender_user, message = JStr ''Siapa kamu?'',
             msg_createdAt = 7, msg_updatedAt = 7\<rparr>,
            \<lparr>msg_id = 4, senderType = sender_bot, message = fallback,
             msg_createdAt = 7, msg_updatedAt = 7\<rparr>],
         messages_seq := 4\<rparr>) \<and>
   status (fst (sendQuestion example_env_down example_followup example_world)) = 500 \<and>
   conversations (snd (sendQuestion example_env_down example_followup example_world)) =
     [example_conversation]"
proof -
  let ?sid = "''3b241101-e2bb-4255-8caf-4136c566a962''"
  let ?p = "\<lparr>question = ''Siapa kamu?'', sessionId = Some ?sid\<rparr>"
  let ?ev = example_env_down
  have x: "axios_post ?ev externalApiUrl (chatbot_request ?sid ''Siapa kamu?'') =
             Inl ''timeout of 0ms exceeded''"
    by (simp add: example_env_down_def)
  have a: "ask_chatbot ?ev ?sid (question ?p) = fallback"
    by (simp add: ask_chatbot_def example_env_down_def)
  have j: "jsonb_in (bound_text ?ev fallback) = None" by (rule fallback_refused)
  have r: "resolve_session ?ev ?p example_world = (Inr (Some example_conversation, ?sid), example_world)"
    by (rule resolve_existing [where sid = ?sid])
       (simp_all add: example_uuids example_world_def example_conversation_def)
  have f: "faults example_world = []" by (simp add: example_world_def)
  have nu: "\<not> unchanged (lastMessages example_conversation) (ask_chatbot ?ev ?sid (question ?p))"
    unfolding a by (simp add: unchanged_def example_conversation_def fallback_def number_no_string)
  have js: "\<not> json_text (bound_text ?ev (ask_chatbot ?ev ?sid (question ?p)))"
    unfolding a by (simp add: bound_text_def fallback_def fallback_not_json)
  note s = sendQuestion_save_refused [OF example_payloads(3) r f nu js, unfolded a]
  have run: "sendQuestion ?ev example_followup example_world =
     (InternalServerError ''An unexpected error occurred.'' (Some invalid_json),
      example_world
        \<lparr>messages := messages example_world @
           [\<lparr>msg_id = 3, senderType = sender_user, message = JStr ''Siapa kamu?'',
             msg_createdAt = 7, msg_updatedAt = 7\<rparr>,
            \<lparr>msg_id = 4, senderType = sender_bot, message = fallback,
             msg_createdAt = 7, msg_updatedAt = 7\<rparr>],
         messages_seq := 4\<rparr>)"
    unfolding s
    by (simp add: example_world_def user_row_def bot_row_def example_env_down_def
        example_env_def)
  have st: "status (fst (sendQuestion ?ev example_followup example_world)) = 500"
    unfolding run by simp
  have cv: "conversations (snd (sendQuestion ?ev example_followup example_world)) =
              [example_conversation]"
    unfolding run by (simp add: example_world_def)
  from a have a': "ask_chatbot ?ev ?sid ''Siapa kamu?'' = fallback" by simp
  show ?thesis by (intro conjI x a' j run st cv)
qed

text \<open>
  The same for every request and store: when the chatbot call throws and the request
  reaches step 4, the answer is 500, unless the column already holds the fallback as
  a JSON string.
\<close>

lemma external_failure_fails_request:
  assumes "validate (body ctx) = Inr p"
      and "resolve_session ev p w = (Inr (Some c, sid), w1)"
      and "faults w1 = []"
      and "axios_post ev externalApiUrl (chatbot_request sid (question p)) = Inl e"
      and "\<not> unchanged (lastMessages c) fallback"
  shows "status (fst (sendQuestion ev ctx w)) = 500"
proof -
  have a: "ask_chatbot ev sid (question p) = fallback"
    using assms(4) by (simp add: ask_chatbot_def)
  have nu: "\<not> unchanged (lastMessages c) (ask_chatbot ev sid (question p))"
    unfolding a by (rule assms(5))
  have js: "\<not> json_text (bound_text ev (ask_chatbot ev sid (question p)))"
    unfolding a by (simp add: bound_text_def fallback_def fallback_not_json)
  show ?thesis
    unfolding sendQuestion_save_refused [OF assms(1-3) nu js] by simp
qed

section \<open>Which conversation a question lands in\<close>

text \<open>
  A session id is looked up as a UUID, so the stored conversation is found under any
  spelling of its id, and the id the request then runs under is the stored one.
\<close>

lemma resolve_other_spelling:
  "validate (JObj [(''question'', JStr ''Siapa kamu?''),
                   (''sessionId'', JStr ''3B241101-E2BB-4255-8CAF-4136C566A962'')]) =
     Inr \<lparr>question = ''Siapa kamu?'',
          sessionId = Some ''3B241101-E2BB-4255-8CAF-4136C566A962''\<rparr>"
  "resolve_session ev
     \<lparr>question = ''Siapa kamu?'', sessionId = Some ''3B241101-E2BB-4255-8CAF-4136C566A962''\<rparr>
     example_world =
     (Inr (Some example_conversation, ''3b241101-e2bb-4255-8caf-4136c566a962''), example_world)"
proof -
  show "validate (JObj [(''question'', JStr ''Siapa kamu?''),
                   (''sessionId'', JStr ''3B241101-E2BB-4255-8CAF-4136C566A962'')]) =
     Inr \<lparr>question = ''Siapa kamu?'',
          sessionId = Some ''3B241101-E2BB-4255-8CAF-4136C566A962''\<rparr>"
    by (simp add: validate_def validate_question_def validate_sessionId_def trim_def
        is_space_def is_uuid_v4_def is_hex_def eval_nat_numeral)
  have u: "uuid_in ''3B241101-E2BB-4255-8CAF-4136C566A962'' =
             Some ''3b241101-e2bb-4255-8caf-4136c566a962''"
    by (simp add: uuid_in_def uuid_pairs_numeral is_hex_def lower_hex_def uuid_out_def)
  show "resolve_session ev
     \<lparr>question = ''Siapa kamu?'', sessionId = Some ''3B241101-E2BB-4255-8CAF-4136C566A962''\<rparr>
     example_world =
     (Inr (Some example_conversation, ''3b241101-e2bb-4255-8caf-4136c566a962''), example_world)"
    by (rule resolve_existing [where sid = "''3B241101-E2BB-4255-8CAF-4136C566A962''"])
       (simp_all add: u example_world_def example_conversation_def)
qed

text \<open>
  Claim C2 fails on the code. The stored example gets a follow-up question under its
  session id, and the chatbot answers \<open>Halo\<close>. The conversation is found and reused,
  and both messages are stored; but the save of step 4 binds \<open>Halo\<close> to the \<open>jsonb\<close>
  column, which the database refuses, so the row keeps its reference to message 2 and
  its cached text, and the answer is 500.
\<close>

theorem sendQuestion_reused_row_not_overwritten:
  "resolve_session example_env
     \<lparr>question = ''Siapa kamu?'', sessionId = Some ''3b241101-e2bb-4255-8caf-4136c566a962''\<rparr>
     example_world =
     (Inr (Some example_conversation, ''3b241101-e2bb-4255-8caf-4136c566a962''),
      example_world) \<and>
   ask_chatbot example_env ''3b241101-e2bb-4255-8caf-4136c566a962'' ''Siapa kamu?'' =
     JStr ''Halo'' \<and>
   jsonb_in (bound_text example_env (JStr ''Halo'')) = None \<and>
   sendQuestion example_env example_followup example_world =
     (InternalServerError ''An unexpected error occurred.'' (Some invalid_json),
      example_world
        \<lparr>messages := messages example_world @
           [\<lparr>msg_id = 3, senderType = sender_user, message = JStr ''Siapa kamu?'',
             msg_createdAt = 7, msg_updatedAt = 7\<rparr>,
            \<lparr>msg_id = 4, senderType = sender_bot, message = JStr ''Halo'',
             msg_createdAt = 7, msg_updatedAt = 7\<rparr>],
         messages_seq := 4\<rparr>) \<and>
   conversations (snd (sendQuestion example_env example_followup example_world)) =
     [example_conversation] \<and>
   messagesId example_conversation = Some 2 \<and>
   lastMessages example_conversation = Some (Jsonb ''42'')"
proof -
  let ?sid = "''3b241101-e2bb-4255-8caf-4136c566a962''"
  let ?p = "\<lparr>question = ''Siapa kamu?'', sessionId = Some ?sid\<rparr>"
  let ?ev = example_env
  have a: "ask_chatbot ?ev ?sid (question ?p) = JStr ''Halo''"
    by (simp add: ask_chatbot_def example_env_def)
  have j: "jsonb_in (bound_text ?ev (JStr ''Halo'')) = None"
    by (simp add: jsonb_in_def bound_text_def Halo_not_json)
  have r: "resolve_session ?ev ?p example_world = (Inr (Some example_conversation, ?sid), example_world)"
    by (rule resolve_existing [where sid = ?sid])
       (simp_all add: example_uuids example_world_def example_conversation_def)
  have f: "faults example_world = []" by (simp add: example_world_def)
  have nu: "\<not> unchanged (lastMessages example_conversation) (ask_chatbot ?ev ?sid (question ?p))"
    unfolding a by (simp add: unchanged_def example_conversation_def number_no_string)
  have js: "\<not> json_text (bound_text ?ev (ask_chatbot ?ev ?sid (question ?p)))"
    unfolding a by (simp add: bound_text_def Halo_not_json)
  note s = sendQuestion_save_refused [OF example_payloads(3) r f nu js, unfolded a]
  have run: "sendQuestion ?ev example_followup example_world =
     (InternalServerError ''An unexpected error occurred.'' (Some invalid_json),
      example_world
        \<lparr>messages := messages example_world @
           [\<lparr>msg_id = 3, senderType = sender_user, message = JStr ''Siapa kamu?'',
             msg_createdAt = 7, msg_updatedAt = 7\<rparr>,
            \<lparr>msg_id = 4, senderType = sender_bot, message = JStr ''Halo'',
             msg_createdAt = 7, msg_updatedAt = 7\<rparr>],
         messages_seq := 4\<rparr>)"
    unfolding s
    by (simp add: example_world_def user_row_def bot_row_def example_env_def)
  have cv: "conversations (snd (sendQuestion ?ev example_followup example_world)) =
              [example_conversation]"
    unfolding run by (simp add: example_world_def)
  from a have a': "ask_chatbot ?ev ?sid ''Siapa kamu?'' = JStr ''Halo''" by simp
  have m: "messagesId example_conversation = Some 2"
    and l: "lastMessages example_conversation = Some (Jsonb ''42'')"
    by (simp_all add: example_conversation_def)
  show ?thesis by (intro conjI r a' j run cv m l)
qed

section \<open>A question without a session id\<close>

text \<open>
  Claim C6 fails on the code. The stored example gets a question without a session
  id, and the chatbot answers \<open>Halo\<close>. A UUID is generated, one conversation is
  inserted under it and the two messages are stored; then the save of step 4 is
  refused as under C2, and the answer is a 500, which carries no session id. The new
  conversation is left pointing at no message.
\<close>

theorem sendQuestion_new_session_answers_500:
  "validate (body example_question) = Inr \<lparr>question = ''Siapa kamu?'', sessionId = None\<rparr> \<and>
   uuidv4 example_env (uuid_calls example_world) = ''9f0c1a2e-7d44-4b8a-9a57-0c2d5e6f7a81'' \<and>
   sendQuestion example_env example_question example_world =
     (InternalServerError ''An unexpected error occurred.'' (Some invalid_json),
      example_world
        \<lparr>uuid_calls := 2,
         conversations := conversations example_world @
           [\<lparr>conv_id = 2, session_id = ''9f0c1a2e-7d44-4b8a-9a57-0c2d5e6f7a81'',
             messagesId = None, lastMessages = None, createdAt = 7, updatedAt = 7\<rparr>],
         conversations_seq := 2,
         messages := messages example_world @
           [\<lparr>msg_id = 3, senderType = sender_user, message = JStr ''Siapa kamu?'',
             msg_createdAt = 7, msg_updatedAt = 7\<rparr>,
            \<lparr>msg_id = 4, senderType = sender_bot, message = JStr ''Halo'',
             msg_createdAt = 7, msg_updatedAt = 7\<rparr>],
         messages_seq := 4\<rparr>) \<and>
   status (fst (sendQuestion example_env example_question example_world)) = 500"
proof -
  let ?sid = "''9f0c1a2e-7d44-4b8a-9a57-0c2d5e6f7a81''"
  let ?p = "\<lparr>question = ''Siapa kamu?'', sessionId = None\<rparr>"
  let ?ev = example_env
  let ?c = "\<lparr>conv_id = 2, session_id = ?sid, messagesId = None, lastMessages = None,
             createdAt = 7, updatedAt = 7\<rparr>"
  let ?w1 = "example_world\<lparr>uuid_calls := 2, conversations := conversations example_world @ [?c],
                            conversations_seq := 2\<rparr>"
  have u: "uuidv4 ?ev (uuid_calls example_world) = ?sid"
    by (simp add: example_env_def example_world_def)
  have a: "ask_chatbot ?ev ?sid (question ?p) = JStr ''Halo''"
    by (simp add: ask_chatbot_def example_env_def)
  have r: "resolve_session ?ev ?p example_world = (Inr (Some ?c, ?sid), ?w1)"
    using resolve_fresh [of ?p example_world ?ev ?sid]
    by (simp add: u example_uuids)
       (simp add: example_world_def example_conversation_def example_env_def)
  have f: "faults ?w1 = []" by (simp add: example_world_def)
  have nu: "\<not> unchanged (lastMessages ?c) (ask_chatbot ?ev ?sid (question ?p))"
    by (simp add: unchanged_def)
  have js: "\<not> json_text (bound_text ?ev (ask_chatbot ?ev ?sid (question ?p)))"
    unfolding a by (simp add: bound_text_def Halo_not_json)
  note s = sendQuestion_save_refused [OF example_payloads(2) r f nu js, unfolded a]
  have run: "sendQuestion ?ev example_question example_world =
     (InternalServerError ''An unexpected error occurred.'' (Some invalid_json),
      example_world
        \<lparr>uuid_calls := 2,
         conversations := conversations example_world @ [?c],
         conversations_seq := 2,
         messages := messages example_world @
           [\<lparr>msg_id = 3, senderType = sender_user, message = JStr ''Siapa kamu?'',
             msg_createdAt = 7, msg_updatedAt = 7\<rparr>,
            \<lparr>msg_id = 4, senderType = sender_bot, message = JStr ''Halo'',
             msg_createdAt = 7, msg_updatedAt = 7\<rparr>],
         messages_seq := 4\<rparr>)"
    unfolding s
    by (simp add: example_world_def user_row_def bot_row_def example_env_def)
  have st: "status (fst (sendQuestion ?ev example_question example_world)) = 500"
    unfolding run by simp
  show ?thesis by (intro conjI example_payloads(2) u run st)
qed

section \<open>An empty answer is not an answer\<close>

text \<open>
  Likewise when the chatbot call succeeds with a falsy \<open>message\<close>: the fallback is
  taken, and the request that reaches step 4 answers 500.
\<close>

lemma falsy_answer_fails_request:
  assumes "validate (body ctx) = Inr p"
      and "resolve_session ev p w = (Inr (Some c, sid), w1)"
      and "faults w1 = []"
      and "axios_post ev externalApiUrl (chatbot_request sid (question p)) = Inr d"
      and "\<not> truthy (get_prop d ''message'')"
      and "\<not> unchanged (lastMessages c) fallback"
  shows "ask_chatbot ev sid (question p) = fallback"
    and "status (fst (sendQuestion ev ctx w)) = 500"
proof -
  show a: "ask_chatbot ev sid (question p) = fallback"
    using assms(4,5) by (simp add: ask_chatbot_def)
  have nu: "\<not> unchanged (lastMessages c) (ask_chatbot ev sid (question p))"
    unfolding a by (rule assms(6))
  have js: "\<not> json_text (bound_text ev (ask_chatbot ev sid (question p)))"
    unfolding a by (simp add: bound_text_def fallback_def fallback_not_json)
  show "status (fst (sendQuestion ev ctx w)) = 500"
    unfolding sendQuestion_save_refused [OF assms(1-3) nu js] by simp
qed

text \<open>
  Claim C10 fails on the code. A question comes in under a session id no conversation
  has, and the chatbot answers with the empty string as its \<open>message\<close>. The empty
  string is falsy, so the fallback is taken and stored as the bot message; but the
  caller is not answered with it: the save of step 4 is refused as under C1, and the
  answer is 500.
\<close>

theorem sendQuestion_empty_answer_answers_500:
  "axios_post example_env_empty externalApiUrl
     (chatbot_request ''9f0c1a2e-7d44-4b8a-9a57-0c2d5e6f7a81'' ''Siapa kamu?'') =
     Inr (JObj [(''message'', JStr [])]) \<and>
   ask_chatbot example_env_empty ''9f0c1a2e-7d44-4b8a-9a57-0c2d5e6f7a81'' ''Siapa kamu?'' =
     fallback \<and>
   sendQuestion example_env_empty example_unseen example_world =
     (InternalServerError ''An unexpected error occurred.'' (Some invalid_json),
      example_world
        \<lparr>conversations := conversations example_world @
           [\<lparr>conv_id = 2, session_id = ''9f0c1a2e-7d44-4b8a-9a57-0c2d5e6f7a81'',
             messagesId = None, lastMessages = None, createdAt = 7, updatedAt = 7\<rparr>],
         conversations_seq := 2,
         messages := messages example_world @
           [\<lparr>msg_id = 3, senderType = sender_user, message = JStr ''Siapa kamu?'',
             msg_createdAt = 7, msg_updatedAt = 7\<rparr>,
            \<lparr>msg_id = 4, senderType = sender_bot, message = fallback,
             msg_createdAt = 7, msg_updatedAt = 7\<rparr>],
         messages_seq := 4\<rparr>) \<and>
   status (fst (sendQuestion example_env_empty example_unseen example_world)) = 500"
proof -
  let ?sid = "''9f0c1a2e-7d44-4b8a-9a57-0c2d5e6f7a81''"
  let ?p = "\<lparr>question = ''Siapa kamu?'', sessionId = Some ?sid\<rparr>"
  let ?ev = example_env_empty
  let ?c = "\<lparr>conv_id = 2, session_id = ?sid, messagesId = None, lastMessages = None,
             createdAt = 7, updatedAt = 7\<rparr>"
  let ?w1 = "example_world\<lparr>conversations := conversations example_world @ [?c],
                            conversations_seq := 2\<rparr>"
  have x: "axios_post ?ev externalApiUrl (chatbot_request ?sid ''Siapa kamu?'') =
             Inr (JObj [(''message'', JStr [])])"
    by (simp add: example_env_empty_def)
  have a: "ask_chatbot ?ev ?sid (question ?p) = fallback"
    by (simp add: ask_chatbot_def example_env_empty_def)
  have r: "resolve_session ?ev ?p example_world = (Inr (Some ?c, ?sid), ?w1)"
    using resolve_unknown [of ?p ?sid example_world ?sid ?ev]
    by (simp add: example_uuids)
       (simp add: example_world_def example_conversation_def example_env_empty_def
        example_env_def)
  have f: "faults ?w1 = []" by (simp add: example_world_def)
  have nu: "\<not> unchanged (lastMessages ?c) (ask_chatbot ?ev ?sid (question ?p))"
    by (simp add: unchanged_def)
  have js: "\<not> json_text (bound_text ?ev (ask_chatbot ?ev ?sid (question ?p)))"
    unfolding a by (simp add: bound_text_def fallback_def fallback_not_json)
  note s = sendQuestion_save_refused [OF example_payloads(4) r f nu js, unfolded a]
  have run: "sendQuestion ?ev example_unseen example_world =
     (InternalServerError ''An unexpected error occurred.'' (Some invalid_json),
      example_world
        \<lparr>conversations := conversations example_world @ [?c],
         conversations_seq := 2,
         messages := messages example_world @
           [\<lparr>msg_id = 3, senderType = sender_user, message = JStr ''Siapa kamu?'',
             msg_createdAt = 7, msg_updatedAt = 7\<rparr>,
            \<lparr>msg_id = 4, senderType = sender_bot, message = fallback,
             msg_createdAt = 7, msg_updatedAt = 7\<rparr>],
         messages_seq := 4\<rparr>)"
    unfolding s
    by (simp add: example_world_def user_row_def bot_row_def example_env_empty_def
        example_env_def)
  have st: "status (fst (sendQuestion ?ev example_unseen example_world)) = 500"
    unfolding run by simp
  from a have a': "ask_chatbot ?ev ?sid ''Siapa kamu?'' = fallback" by simp
  show ?thesis by (intro conjI x a' run st)
qed

section \<open>Deleting a message clears the references to it\<close>

lemma find_msg_id: "find (\<lambda>m. msg_id m = n) ms = Some m \<Longrightarrow> msg_id m = n \<and> m \<in> set ms"
  by (auto simp: find_Some_iff)

lemma find_conv_id: "find (\<lambda>c. conv_id c = n) cs = Some c \<Longrightarrow> conv_id c = n \<and> c \<in> set cs"
  by (auto simp: find_Some_iff)


lemma referencing_rows:
  assumes "distinct (map conv_id xs)" and "r \<in> set xs"
  shows "conv_id r \<in> conv_id ` set (filter (\<lambda>c. messagesId c = Some n) xs)
         \<longleftrightarrow> messagesId r = Some n"
  using assms by (auto simp: distinct_map inj_on_def)






section \<open>Deleting a conversation touches nothing else\<close>

lemma delete_own_row:
  assumes "distinct (map conv_id xs)" and "c \<in> set xs"
  shows "filter (\<lambda>r. conv_id r \<noteq> conv_id c) xs = remove1 c xs"
  using assms
proof (induction xs)
  case Nil
  then show ?case by simp
next
  case (Cons x xs)
  show ?case
  proof (cases "x = c")
    case True
    then have "\<forall>r\<in>set xs. conv_id r \<noteq> conv_id c"
      using Cons.prems(1) by (force simp: image_iff)
    then have "filter (\<lambda>r. conv_id r \<noteq> conv_id c) xs = xs"
      by (simp add: filter_id_conv)
    then show ?thesis using True by simp
  next
    case False
    then have "c \<in> set xs" using Cons.prems(2) by simp
    moreover have "conv_id x \<noteq> conv_id c"
      using Cons.prems(1) \<open>c \<in> set xs\<close> by auto
    ultimately show ?thesis using Cons False by simp
  qed
qed

text \<open>
  Claim C8. Take a request whose \<open>id\<close> parameter reads as the id of a stored
  conversation \<open>c\<close>, a store with unique keys and a storage layer that raises nothing.
  \<open>deleteConversation\<close> answers 204 and leaves the world as it was but for the
  conversations, which are the old ones without \<open>c\<close>: one row fewer, \<open>c\<close> gone, every
  other row still there as it was. The messages are the same list, so the message \<open>c\<close>
  pointed at is found as before.
\<close>

theorem deleteConversation_frame:
  assumes "params ctx ''id'' = Some v" and "parse_nat v = Some n"
      and "find (\<lambda>c. conv_id c = n) (conversations w) = Some c"
      and "faults w = []" and "keys_ok w"
  shows "\<exists>w'. deleteConversation ev ctx w = (NoContent, w') \<and>
               w' = w\<lparr>conversations := remove1 c (conversations w)\<rparr> \<and>
               c \<in> set (conversations w) \<and> c \<notin> set (conversations w') \<and>
               Suc (length (conversations w')) = length (conversations w) \<and>
               set (conversations w') = set (conversations w) - {c} \<and>
               messages w' = messages w \<and>
               (\<forall>k. find (\<lambda>x. msg_id x = k) (messages w') =
                    find (\<lambda>x. msg_id x = k) (messages w))"
proof -
  let ?w' = "w\<lparr>conversations := remove1 c (conversations w)\<rparr>"
  have cc: "conv_id c = n" "c \<in> set (conversations w)"
    using find_conv_id [OF assms(3)] by simp_all
  have d: "distinct (map conv_id (conversations w))"
    using assms(5) by (simp add: keys_ok_def)
  then have d': "distinct (conversations w)" by (simp add: distinct_map)
  have run: "deleteConversation ev ctx w = (NoContent, ?w')"
    using assms(1,4)
    by (simp add: deleteConversation_def catch_all_def deleteConversation_try_def
        Conversation_find_def Conversation_delete_def bound_def storage_no_faults
        where_primary_key_found [OF assms(2,3)] bind_io_def return_io_def
        delete_own_row [OF d cc(2)])
  have gone: "c \<notin> set (conversations ?w')" using d' by simp
  have len: "Suc (length (conversations ?w')) = length (conversations w)"
    using cc(2) by (simp add: length_remove1) (cases "conversations w"; simp)
  have rest: "set (conversations ?w') = set (conversations w) - {c}"
    using d' by simp
  have ms: "messages ?w' = messages w" by simp
  have q: "\<forall>k. find (\<lambda>x. msg_id x = k) (messages ?w') =
               find (\<lambda>x. msg_id x = k) (messages w)"
    by simp
  show ?thesis
    by (rule exI [of _ ?w']) (intro conjI run refl cc(2) gone len rest ms q)
qed

text \<open>
  The theorem at work: deleting the stored conversation empties the conversations and
  keeps both messages.
\<close>

theorem deleteConversation_frame_witness:
  "params (with_id ''1'') ''id'' = Some ''1'' \<and> parse_nat ''1'' = Some 1 \<and>
   find (\<lambda>c. conv_id c = 1) (conversations example_world) = Some example_conversation \<and>
   faults example_world = [] \<and> keys_ok example_world \<and>
   deleteConversation example_env (with_id ''1'') example_world =
     (NoContent, example_world\<lparr>conversations := []\<rparr>) \<and>
   messages (example_world\<lparr>conversations := []\<rparr>) = messages example_world"
proof -
  have p: "params (with_id ''1'') ''id'' = Some ''1''" by (simp add: with_id_def)
  have n: "parse_nat ''1'' = Some 1" by (simp add: parse_nat_def is_digit_def digit_val_def)
  have c: "find (\<lambda>c. conv_id c = 1) (conversations example_world) = Some example_conversation"
    by (simp add: example_world_def example_conversation_def)
  have f: "faults example_world = []" by (simp add: example_world_def)
  have k: "keys_ok example_world"
    by (simp add: keys_ok_def example_world_def example_conversation_def example_message_def)
  from deleteConversation_frame [OF p n c f k, of example_env]
  obtain w' where run: "deleteConversation example_env (with_id ''1'') example_world = (NoContent, w')"
    and w': "w' = example_world\<lparr>conversations := remove1 example_conversation
                                                   (conversations example_world)\<rparr>"
    by (elim exE conjE)
  have "remove1 example_conversation (conversations example_world) = []"
    by (simp add: example_world_def)
  then have "deleteConversation example_env (with_id ''1'') example_world =
               (NoContent, example_world\<lparr>conversations := []\<rparr>)"
    using run w' by simp
  moreover have "messages (example_world\<lparr>conversations := []\<rparr>) = messages example_world"
    by simp
  ultimately show ?thesis by (intro conjI p n c f k)
qed

section \<open>The relation the read handlers preload\<close>

text \<open>
  The relation \<open>lastMessage\<close> names the column as its foreign key, and the model has
  no attribute of that name: \<open>preload('lastMessage')\<close> throws whenever it is called,
  and the world is as it was.
\<close>

lemma preload_lastMessage_throws:
  "preload_lastMessage w = (Inl (Exception E_MISSING_MODEL_ATTRIBUTE), w)"
  by (simp add: preload_lastMessage_def lastMessage_foreignKey_def Conversation_attributes_def
      throw_io_def)

text \<open>So both handlers that read conversations answer 500 to every request.\<close>

lemma getConversationMessages_answers_500:
  "getConversationMessages ev ctx w =
     (InternalServerError ''Failed to retrieve conversation details.''
        (Some E_MISSING_MODEL_ATTRIBUTE), w)"
  by (simp add: getConversationMessages_def catch_all_def getConversationMessages_try_def
      Let_def bind_io_def preload_lastMessage_throws)

lemma getAllConversations_answers_500:
  "getAllConversations ev ctx w =
     (InternalServerError ''Failed to retrieve conversations.''
        (Some E_MISSING_MODEL_ATTRIBUTE), w)"
  by (simp add: getAllConversations_def catch_all_def getAllConversations_try_def
      Let_def bind_io_def preload_lastMessage_throws)

text \<open>
  Claim C7 fails on the code. The stored example holds conversation 1 under its
  session id. Handed the primary id, and handed the session id, the handler
  \<open>getConversationMessages\<close> answers 500 both times: it throws at \<open>preload\<close> before
  any lookup, so neither call returns the conversation or its last message. Through
  the route table the request does not even reach the handler.
\<close>

theorem getConversationMessages_returns_no_conversation:
  "find (\<lambda>c. conv_id c = 1) (conversations example_world) = Some example_conversation \<and>
   find (\<lambda>c. session_id c = ''3b241101-e2bb-4255-8caf-4136c566a962'')
     (conversations example_world) = Some example_conversation \<and>
   lastMessage_foreignKey \<notin> set Conversation_attributes \<and>
   getConversationMessages example_env (with_id ''1'') example_world =
     (InternalServerError ''Failed to retrieve conversation details.''
        (Some E_MISSING_MODEL_ATTRIBUTE), example_world) \<and>
   getConversationMessages example_env (with_id ''3b241101-e2bb-4255-8caf-4136c566a962'')
     example_world =
     (InternalServerError ''Failed to retrieve conversation details.''
        (Some E_MISSING_MODEL_ATTRIBUTE), example_world) \<and>
   dispatch example_env GET ''/conversation/3b241101-e2bb-4255-8caf-4136c566a962''
     Map.empty JNull example_world =
     (Inl (Missing_method ''getConversationById''), example_world)"
proof -
  have a: "find (\<lambda>c. conv_id c = 1) (conversations example_world) = Some example_conversation"
    and b: "find (\<lambda>c. session_id c = ''3b241101-e2bb-4255-8caf-4136c566a962'')
              (conversations example_world) = Some example_conversation"
    by (simp_all add: example_world_def example_conversation_def)
  have k: "lastMessage_foreignKey \<notin> set Conversation_attributes"
    by (simp add: lastMessage_foreignKey_def Conversation_attributes_def)
  have r: "find_route routes GET ''/conversation/3b241101-e2bb-4255-8caf-4136c566a962'' =
             Some (ConversationsController ''getConversationById'',
                   [(''id_or_uuid'', ''3b241101-e2bb-4255-8caf-4136c566a962'')])"
    by (simp add: routes_def segments_def)
  have d: "dispatch example_env GET ''/conversation/3b241101-e2bb-4255-8caf-4136c566a962''
             Map.empty JNull example_world =
             (Inl (Missing_method ''getConversationById''), example_world)"
    by (simp add: dispatch_def r controller_method_def)
  show ?thesis
    by (intro conjI a b k d getConversationMessages_answers_500)
qed

section \<open>Pages of conversations\<close>

text \<open>
  Claim C9 fails on the code. A store holds three conversations, and the request is
  \<open>GET /conversation?page=999&limit=10\<close>. The route leads to
  \<open>getAllConversations\<close>, which throws at \<open>preload\<close> before the query is run: the
  answer is 500, not an empty page with a total of 3.
\<close>

theorem getAllConversations_answers_no_page:
  "length (conversations example_three) = 3 \<and>
   qs example_page ''page'' = Some ''999'' \<and> qs example_page ''limit'' = Some ''10'' \<and>
   find_route routes GET ''/conversation'' =
     Some (ConversationsController ''getAllConversations'', []) \<and>
   dispatch example_env GET ''/conversation'' (qs example_page) JNull example_three =
     (Inr (InternalServerError ''Failed to retrieve conversations.''
             (Some E_MISSING_MODEL_ATTRIBUTE)), example_three) \<and>
   getAllConversations example_env example_page example_three =
     (InternalServerError ''Failed to retrieve conversations.''
        (Some E_MISSING_MODEL_ATTRIBUTE), example_three) \<and>
   status (fst (getAllConversations example_env example_page example_three)) = 500"
proof -
  have l: "length (conversations example_three) = 3" by (simp add: example_three_def)
  have p: "qs example_page ''page'' = Some ''999''"
    and q: "qs example_page ''limit'' = Some ''10''"
    by (simp_all add: example_page_def)
  have r: "find_route routes GET ''/conversation'' =
             Some (ConversationsController ''getAllConversations'', [])"
    by (simp add: routes_def segments_def)
  have d: "dispatch example_env GET ''/conversation'' (qs example_page) JNull example_three =
             (Inr (InternalServerError ''Failed to retrieve conversations.''
                     (Some E_MISSING_MODEL_ATTRIBUTE)), example_three)"
    by (simp add: dispatch_def r controller_method_def getAllConversations_answers_500)
  have s: "status (fst (getAllConversations example_env example_page example_three)) = 500"
    by (simp add: getAllConversations_answers_500)
  show ?thesis
    by (intro conjI l p q r d s getAllConversations_answers_500)
qed

section \<open>What an internal failure sends back\<close>

lemma storage_fault:
  "faults w = Some e # fs \<Longrightarrow> storage f w = (Inl (Exception e), w\<lparr>faults := fs\<rparr>)"
  by (simp add: storage_def)

lemma sendQuestion_first_call_fails:
  assumes "faults w = Some e # fs" and "validate (body ctx) = Inr p"
  shows "fst (sendQuestion ev ctx w) =
           InternalServerError ''An unexpected error occurred.'' (Some e)"
proof -
  have n: "fst (bind_io (new_session ev) f w) = Inl (Exception e)" for f :: "_ \<Rightarrow> response io"
    using assms(1)
    by (simp add: new_session_def uuid_v4_def Conversation_create_def bind_io_def storage_fault)
  have "fst (bind_io (resolve_session ev p) f w) = Inl (Exception e)"
    for f :: "_ \<Rightarrow> response io"
  proof (cases "sessionId p")
    case None
    then show ?thesis using n by (simp add: resolve_session_def)
  next
    case (Some sid)
    show ?thesis
    proof (cases "sid = []")
      case True
      then show ?thesis using n Some by (simp add: resolve_session_def)
    next
      case False
      then show ?thesis
        using assms(1) Some
        by (simp add: resolve_session_def Conversation_findBy_session_id_def bind_io_def
            storage_fault)
    qed
  qed
  then have "fst (sendQuestion_try ev ctx w) = Inl (Exception e)"
    using assms(2)
    by (simp add: sendQuestion_try_def request_validate_def bind_io_def return_io_def)
  then show ?thesis
    by (cases "sendQuestion_try ev ctx w") (simp add: sendQuestion_def)
qed

text \<open>
  Claim C4, as the code has it. Each of the five handlers turns an exception thrown
  anywhere in its \<open>try\<close> block into a 500 whose body has the handler's generic message
  and, in its \<open>error\<close> field, the message of the exception word for word; the world is
  left as the failed block left it. A storage call that raises is such an exception:
  when the first storage call of a request raises \<open>e\<close> (for \<open>sendQuestion\<close> after the
  request has passed validation, for the two handlers that delete when the path
  parameter is bound), the response is that 500 with \<open>e\<close> in it. A programming error
  is another: the two handlers that read throw at \<open>preload\<close>, and the body carries the
  message of that error.
\<close>

theorem internal_failure_response:
  "(sendQuestion_try ev ctx w = (Inl (Exception e), w') \<longrightarrow>
      sendQuestion ev ctx w =
        (InternalServerError ''An unexpected error occurred.'' (Some e), w')) \<and>
   (getAllConversations_try ev ctx w = (Inl (Exception e), w') \<longrightarrow>
      getAllConversations ev ctx w =
        (InternalServerError ''Failed to retrieve conversations.'' (Some e), w')) \<and>
   (getConversationMessages_try ev ctx w = (Inl (Exception e), w') \<longrightarrow>
      getConversationMessages ev ctx w =
        (InternalServerError ''Failed to retrieve conversation details.'' (Some e), w')) \<and>
   (deleteConversation_try ev ctx w = (Inl (Exception e), w') \<longrightarrow>
      deleteConversation ev ctx w =
        (InternalServerError ''Failed to delete conversation.'' (Some e), w')) \<and>
   (deleteMessage_try ev ctx w = (Inl (Exception e), w') \<longrightarrow>
      deleteMessage ev ctx w =
        (InternalServerError ''Failed to delete message.'' (Some e), w')) \<and>
   (\<forall>msg. status (InternalServerError msg (Some e)) = 500) \<and>
   (faults w = Some e # fs \<longrightarrow>
      (\<forall>p. validate (body ctx) = Inr p \<longrightarrow>
         fst (sendQuestion ev ctx w) =
           InternalServerError ''An unexpected error occurred.'' (Some e)) \<and>
      (\<forall>v. params ctx ''id'' = Some v \<longrightarrow>
         fst (deleteConversation ev ctx w) =
           InternalServerError ''Failed to delete conversation.'' (Some e) \<and>
         fst (deleteMessage ev ctx w) =
           InternalServerError ''Failed to delete message.'' (Some e))) \<and>
   fst (getAllConversations ev ctx w) =
     InternalServerError ''Failed to retrieve conversations.''
       (Some E_MISSING_MODEL_ATTRIBUTE) \<and>
   fst (getConversationMessages ev ctx w) =
     InternalServerError ''Failed to retrieve conversation details.''
       (Some E_MISSING_MODEL_ATTRIBUTE)"
proof (intro conjI impI allI)
  assume "sendQuestion_try ev ctx w = (Inl (Exception e), w')"
  then show "sendQuestion ev ctx w =
               (InternalServerError ''An unexpected error occurred.'' (Some e), w')"
    by (simp add: sendQuestion_def)
next
  assume "getAllConversations_try ev ctx w = (Inl (Exception e), w')"
  then show "getAllConversations ev ctx w =
               (InternalServerError ''Failed to retrieve conversations.'' (Some e), w')"
    by (simp add: getAllConversations_def catch_all_def)
next
  assume "getConversationMessages_try ev ctx w = (Inl (Exception e), w')"
  then show "getConversationMessages ev ctx w =
               (InternalServerError ''Failed to retrieve conversation details.'' (Some e), w')"
    by (simp add: getConversationMessages_def catch_all_def)
next
  assume "deleteConversation_try ev ctx w = (Inl (Exception e), w')"
  then show "deleteConversation ev ctx w =
               (InternalServerError ''Failed to delete conversation.'' (Some e), w')"
    by (simp add: deleteConversation_def catch_all_def)
next
  assume "deleteMessage_try ev ctx w = (Inl (Exception e), w')"
  then show "deleteMessage ev ctx w =
               (InternalServerError ''Failed to delete message.'' (Some e), w')"
    by (simp add: deleteMessage_def catch_all_def)
next
  fix msg show "status (InternalServerError msg (Some e)) = 500" by simp
next
  fix p assume "faults w = Some e # fs" and "validate (body ctx) = Inr p"
  then show "fst (sendQuestion ev ctx w) =
               InternalServerError ''An unexpected error occurred.'' (Some e)"
    by (rule sendQuestion_first_call_fails)
next
  fix v assume "faults w = Some e # fs" and "params ctx ''id'' = Some v"
  then show "fst (deleteConversation ev ctx w) =
               InternalServerError ''Failed to delete conversation.'' (Some e)"
    by (simp add: deleteConversation_def catch_all_def deleteConversation_try_def
        Conversation_find_def bound_def storage_fault bind_io_def)
next
  fix v assume "faults w = Some e # fs" and "params ctx ''id'' = Some v"
  then show "fst (deleteMessage ev ctx w) =
               InternalServerError ''Failed to delete message.'' (Some e)"
    by (simp add: deleteMessage_def catch_all_def deleteMessage_try_def
        Message_find_def bound_def storage_fault bind_io_def)
next
  show "fst (getAllConversations ev ctx w) =
          InternalServerError ''Failed to retrieve conversations.''
            (Some E_MISSING_MODEL_ATTRIBUTE)"
    by (simp add: getAllConversations_answers_500)
next
  show "fst (getConversationMessages ev ctx w) =
          InternalServerError ''Failed to retrieve conversation details.''
            (Some E_MISSING_MODEL_ATTRIBUTE)"
    by (simp add: getConversationMessages_answers_500)
qed

text \<open>
  The theorem at work, on the stored example with the database refusing the
  connection: deleting conversation 1 and asking a follow-up question both answer 500
  with the driver's message in the body.
\<close>

theorem internal_failure_response_witness:
  "faults example_outage = [Some ''connect ECONNREFUSED 127.0.0.1:5432''] \<and>
   params (with_id ''1'') ''id'' = Some ''1'' \<and>
   fst (deleteConversation example_env (with_id ''1'') example_outage) =
     InternalServerError ''Failed to delete conversation.''
       (Some ''connect ECONNREFUSED 127.0.0.1:5432'') \<and>
   validate (body example_followup) =
     Inr \<lparr>question = ''Siapa kamu?'',
          sessionId = Some ''3b241101-e2bb-4255-8caf-4136c566a962''\<rparr> \<and>
   fst (sendQuestion example_env example_followup example_outage) =
     InternalServerError ''An unexpected error occurred.''
       (Some ''connect ECONNREFUSED 127.0.0.1:5432'')"
proof -
  let ?e = "''connect ECONNREFUSED 127.0.0.1:5432''"
  have f: "faults example_outage = Some ?e # []"
    by (simp add: example_outage_def)
  have p: "params (with_id ''1'') ''id'' = Some ''1''" by (simp add: with_id_def)
  note v = example_payloads(3)
  note t = internal_failure_response [THEN conjunct2, THEN conjunct2, THEN conjunct2,
      THEN conjunct2, THEN conjunct2, THEN conjunct2, THEN conjunct1, rule_format, OF f]
  have a: "fst (deleteConversation example_env (with_id ''1'') example_outage) =
             InternalServerError ''Failed to delete conversation.'' (Some ?e)"
    using t [where ctx = "with_id ''1''" and ev = example_env, THEN conjunct2,
             rule_format, OF p, THEN conjunct1] .
  have b: "fst (sendQuestion example_env example_followup example_outage) =
             InternalServerError ''An unexpected error occurred.'' (Some ?e)"
    using t [where ctx = example_followup and ev = example_env, THEN conjunct1,
             rule_format, OF v] .
  show ?thesis using f by (intro conjI p a v b) simp
qed

text \<open>
  Against the claim as the specification words it (a generic message only, the detail
  never in the body): \<open>DELETE /conversation/1\<close> while the database refuses the
  connection sends the driver's message to the client, not a body without it.
\<close>

theorem internal_failure_detail_in_body:
  "dispatch example_env DELETE ''/conversation/1'' Map.empty JNull example_outage =
     (Inr (InternalServerError ''Failed to delete conversation.''
             (Some ''connect ECONNREFUSED 127.0.0.1:5432'')),
      example_outage\<lparr>faults := []\<rparr>) \<and>
   fst (deleteConversation example_env (with_id ''1'') example_outage) =
     InternalServerError ''Failed to delete conversation.''
       (Some ''connect ECONNREFUSED 127.0.0.1:5432'') \<and>
   fst (deleteConversation example_env (with_id ''1'') example_outage) \<noteq>
     InternalServerError ''Failed to delete conversation.'' None"
proof -
  have f: "faults example_outage = [Some ''connect ECONNREFUSED 127.0.0.1:5432'']"
    by (simp add: example_outage_def)
  have h: "deleteConversation example_env \<lparr>params = p, qs = q, body = b\<rparr> example_outage =
             (InternalServerError ''Failed to delete conversation.''
                (Some ''connect ECONNREFUSED 127.0.0.1:5432''),
              example_outage\<lparr>faults := []\<rparr>)"
    if "p ''id'' = Some ''1''" for p q b
    using that
    by (simp add: deleteConversation_def catch_all_def deleteConversation_try_def
        Conversation_find_def bound_def bind_io_def storage_fault [OF f])
  have r: "find_route routes DELETE ''/conversation/1'' =
             Some (ConversationsController ''deleteConversation'', [(''id'', ''1'')])"
    by (simp add: routes_def segments_def)
  have d: "dispatch example_env DELETE ''/conversation/1'' Map.empty JNull example_outage =
             (Inr (InternalServerError ''Failed to delete conversation.''
                     (Some ''connect ECONNREFUSED 127.0.0.1:5432'')),
              example_outage\<lparr>faults := []\<rparr>)"
    by (simp add: dispatch_def r controller_method_def h)
  have a: "fst (deleteConversation example_env (with_id ''1'') example_outage) =
             InternalServerError ''Failed to delete conversation.''
               (Some ''connect ECONNREFUSED 127.0.0.1:5432'')"
    by (simp add: with_id_def h)
  have n: "fst (deleteConversation example_env (with_id ''1'') example_outage) \<noteq>
             InternalServerError ''Failed to delete conversation.'' None"
    by (simp add: a)
  show ?thesis by (intro conjI d a n)
qed

section \<open>The route to one conversation\<close>

text \<open>Of the six routes, the fourth alone names a handler the controller lacks.\<close>

lemma routes_with_a_handler:
  "map (\<lambda>(m, pattern, h).
          case h of Closure \<Rightarrow> True
          | ConversationsController name \<Rightarrow> controller_method name \<noteq> None) routes =
   [True, True, True, False, True, True]"
  by (simp add: routes_def controller_method_def)

text \<open>The two delete routes do reach their handlers, with \<open>id\<close> bound from the path.\<close>

lemma delete_routes_dispatch:
  "dispatch ev DELETE ''/conversation/1'' q b w = (Inr (fst (deleteConversation ev
      \<lparr>params = map_of [(''id'', ''1'')], qs = q, body = b\<rparr> w)),
      snd (deleteConversation ev \<lparr>params = map_of [(''id'', ''1'')], qs = q, body = b\<rparr> w))"
  "dispatch ev DELETE ''/message/2'' q b w = (Inr (fst (deleteMessage ev
      \<lparr>params = map_of [(''id'', ''2'')], qs = q, body = b\<rparr> w)),
      snd (deleteMessage ev \<lparr>params = map_of [(''id'', ''2'')], qs = q, body = b\<rparr> w))"
  by (simp_all add: dispatch_def routes_def segments_def controller_method_def
      split: prod.splits)

text \<open>
  Claim C5 fails on the code. The route \<open>GET /conversation/:id_or_uuid\<close> names the
  handler \<open>getConversationById\<close>, a method the controller does not have: a request for
  the stored conversation 1 matches the route and ends in the framework's error before
  any lookup. And the handler that holds the lookup, \<open>getConversationMessages\<close>, reads
  \<open>params.id\<close>, which this route (whose parameter is \<open>id_or_uuid\<close>) never binds;
  given the route's parameters it answers 500, not the conversation, as it does to
  every request.
\<close>

theorem getConversation_route_reaches_no_lookup:
  "find (\<lambda>c. conv_id c = 1) (conversations example_world) = Some example_conversation \<and>
   find_route routes GET ''/conversation/1'' =
     Some (ConversationsController ''getConversationById'', [(''id_or_uuid'', ''1'')]) \<and>
   controller_method ''getConversationById'' = None \<and>
   dispatch example_env GET ''/conversation/1'' Map.empty JNull example_world =
     (Inl (Missing_method ''getConversationById''), example_world) \<and>
   map_of [(''id_or_uuid'', ''1'')] ''id'' = None \<and>
   fst (getConversationMessages example_env
          \<lparr>params = map_of [(''id_or_uuid'', ''1'')], qs = Map.empty, body = JNull\<rparr>
          example_world) =
     InternalServerError ''Failed to retrieve conversation details.''
       (Some E_MISSING_MODEL_ATTRIBUTE)"
proof -
  have r: "find_route routes GET ''/conversation/1'' =
             Some (ConversationsController ''getConversationById'', [(''id_or_uuid'', ''1'')])"
    by (simp add: routes_def segments_def)
  have c: "controller_method ''getConversationById'' = None"
    by (simp add: controller_method_def)
  have d: "dispatch example_env GET ''/conversation/1'' Map.empty JNull example_world =
             (Inl (Missing_method ''getConversationById''), example_world)"
    by (simp add: dispatch_def r c)
  have f: "find (\<lambda>c. conv_id c = 1) (conversations example_world) = Some example_conversation"
    by (simp add: example_world_def example_conversation_def)
  have m: "map_of [(''id_or_uuid'', ''1'')] ''id'' = None" by simp
  have h: "fst (getConversationMessages example_env
                  \<lparr>params = map_of [(''id_or_uuid'', ''1'')], qs = Map.empty, body = JNull\<rparr>
                  example_world) =
             InternalServerError ''Failed to retrieve conversation details.''
               (Some E_MISSING_MODEL_ATTRIBUTE)"
    by (simp add: getConversationMessages_def catch_all_def getConversationMessages_try_def
        bind_io_def Let_def preload_lastMessage_throws)
  show ?thesis by (intro conjI f r c d m h)
qed

section \<open>The schema's guarantees are invariants\<close>

text \<open>
  Unique keys and valid references are assumed of the store in the theorems above.
  Every handler keeps them, whatever the request and whichever storage calls fail, and
  the empty store has them: they hold of every store the service can reach.
\<close>

lemma keeps_return: "keeps P (return_io x)"
  by (simp add: keeps_def return_io_def)

lemma keeps_throw: "keeps P (throw_io e)"
  by (simp add: keeps_def throw_io_def)

lemma keeps_bind:
  assumes "keeps P m" and "\<And>x. keeps P (f x)"
  shows "keeps P (bind_io m f)"
proof -
  have "P (snd (bind_io m f w))" if "P w" for w
  proof (cases "m w")
    case (Pair r w1)
    then have "P w1" using assms(1) that by (auto simp: keeps_def)
    then show ?thesis
      using Pair assms(2) by (cases r) (auto simp: bind_io_def keeps_def)
  qed
  then show ?thesis by (simp add: keeps_def)
qed

lemma keeps_storage:
  assumes "keeps P f" and "\<And>w fs. P w \<Longrightarrow> P (w\<lparr>faults := fs\<rparr>)"
  shows "keeps P (storage f)"
proof -
  have "P (snd (storage f w))" if "P w" for w
  proof (cases "faults w")
    case Nil
    then show ?thesis using assms(1) that by (simp add: storage_def keeps_def)
  next
    case (Cons a fs)
    then show ?thesis
      using assms that by (cases a) (auto simp: storage_def keeps_def)
  qed
  then show ?thesis by (simp add: keeps_def)
qed

lemma keeps_bound: "(\<And>s. keeps P (f s)) \<Longrightarrow> keeps P (bound v f)"
  by (cases v) (simp_all add: bound_def keeps_throw)

lemma store_ok_faults: "store_ok w \<Longrightarrow> store_ok (w\<lparr>faults := fs\<rparr>)"
  by (simp add: store_ok_def keys_ok_def references_ok_def cong: option.case_cong)

lemma keeps_read: "(\<And>w. snd (f w) = w) \<Longrightarrow> keeps store_ok (storage f)"
  by (rule keeps_storage) (simp_all add: keeps_def store_ok_faults)

lemma keeps_uuid_v4: "keeps store_ok (uuid_v4 ev)"
  by (simp add: keeps_def uuid_v4_def store_ok_def keys_ok_def references_ok_def
      cong: option.case_cong)

lemma keeps_Conversation_findBy: "keeps store_ok (Conversation_findBy_session_id sid)"
  unfolding Conversation_findBy_session_id_def
  by (rule keeps_read) (simp split: option.splits)

lemma keeps_Conversation_create: "keeps store_ok (Conversation_create ev sid)"
proof (cases "uuid_in sid")
  case None
  then show ?thesis
    unfolding Conversation_create_def by (simp add: keeps_read)
next
  case (Some u)
  have "keeps store_ok
          (\<lambda>w. if u \<in> set (map session_id (conversations w))
                then (Inl (Exception duplicate_key),
                      w\<lparr>conversations_seq := Suc (conversations_seq w)\<rparr>)
                else let c = \<lparr>conv_id = Suc (conversations_seq w), session_id = u,
                               messagesId = None, lastMessages = None,
                               createdAt = now ev, updatedAt = now ev\<rparr>
                     in (Inr (c\<lparr>session_id := sid\<rparr>),
                         w\<lparr>conversations := conversations w @ [c],
                           conversations_seq := Suc (conversations_seq w)\<rparr>))"
    by (auto simp: keeps_def store_ok_def keys_ok_def references_ok_def list_all_iff Let_def
        split: option.splits)
  then show ?thesis
    unfolding Conversation_create_def Some
    by (simp add: keeps_storage store_ok_faults)
qed

lemma keeps_Message_create: "keeps store_ok (Message_create ev s txt)"
  unfolding Message_create_def
proof (rule keeps_storage)
  show "keeps store_ok
          (\<lambda>w. let m = \<lparr>msg_id = Suc (messages_seq w), senderType = s, message = txt,
                          msg_createdAt = now ev, msg_updatedAt = now ev\<rparr>
                in (Inr m, w\<lparr>messages := messages w @ [m],
                             messages_seq := Suc (messages_seq w)\<rparr>))"
    by (auto simp: keeps_def store_ok_def keys_ok_def references_ok_def list_all_iff Let_def
        split: option.splits)
qed (rule store_ok_faults)

lemma map_key_if:
  "(\<And>r. f (g r) = f r) \<Longrightarrow> map (f \<circ> (\<lambda>r. if P r then g r else r)) xs = map f xs"
  by (induction xs) simp_all

text \<open>Rewriting rows without touching their keys, towards messages that are stored.\<close>

lemma store_ok_rewritten:
  assumes "store_ok w"
      and "map conv_id cs = map conv_id (conversations w)"
      and "map session_id cs = map session_id (conversations w)"
      and "distinct (map msg_id ms)" and "set ms \<subseteq> set (messages w)"
      and "\<And>c k. c \<in> set cs \<Longrightarrow> messagesId c = Some k \<Longrightarrow> k \<in> msg_id ` set ms"
  shows "store_ok (w\<lparr>messages := ms, conversations := cs\<rparr>)"
proof -
  have "set (map conv_id cs) = set (map conv_id (conversations w))"
    by (simp only: assms(2))
  then have img: "conv_id ` set cs = conv_id ` set (conversations w)" by simp
  have b: "list_all (\<lambda>c. conv_id c \<le> conversations_seq w) cs"
    unfolding list_all_iff
  proof
    fix c assume "c \<in> set cs"
    then have "conv_id c \<in> conv_id ` set (conversations w)"
      using img by blast
    then obtain y where "y \<in> set (conversations w)" and "conv_id c = conv_id y"
      by blast
    then show "conv_id c \<le> conversations_seq w"
      using assms(1) by (simp add: store_ok_def keys_ok_def list_all_iff)
  qed
  have k: "keys_ok (w\<lparr>messages := ms, conversations := cs\<rparr>)"
    using assms(1,4,5) b
    by (auto simp: store_ok_def keys_ok_def assms(2,3) list_all_iff)
  have r: "references_ok (w\<lparr>messages := ms, conversations := cs\<rparr>)"
    using assms(6) by (auto simp: references_ok_def list_all_iff split: option.splits)
  show ?thesis using k r by (simp add: store_ok_def)
qed

lemma keeps_Conversation_save: "keeps store_ok (Conversation_save ev c mid lm)"
proof (cases "last_messages_update ev c lm")
  case (Inl e)
  then show ?thesis
    unfolding Conversation_save_def by (simp add: keeps_read)
next
  case (Inr f)
  let ?h = "\<lambda>r. if conv_id r = conv_id c
                 then r\<lparr>messagesId := mid, lastMessages := f (lastMessages r),
                        updatedAt := now ev\<rparr>
                 else r"
  have "store_ok (w\<lparr>conversations := map ?h (conversations w)\<rparr>)"
    if ok: "store_ok w"
      and fk: "\<not> (case mid of None \<Rightarrow> False
                   | Some m \<Rightarrow> m \<notin> set (map msg_id (messages w)))" for w
  proof -
    have i: "map conv_id (map ?h (conversations w)) = map conv_id (conversations w)"
      and s: "map session_id (map ?h (conversations w)) = map session_id (conversations w)"
      by (simp_all add: map_key_if)
    have d: "distinct (map msg_id (messages w))"
      using ok by (simp add: store_ok_def keys_ok_def)
    have r: "k \<in> msg_id ` set (messages w)"
      if "x \<in> set (map ?h (conversations w))" and "messagesId x = Some k" for x k
      using that ok fk
      by (auto simp: store_ok_def references_ok_def list_all_iff
          split: option.splits if_splits)
    have "store_ok (w\<lparr>messages := messages w, conversations := map ?h (conversations w)\<rparr>)"
      by (rule store_ok_rewritten [OF ok i s d subset_refl r])
    then show ?thesis by simp
  qed
  then have "keeps store_ok
          (\<lambda>w. if (case mid of None \<Rightarrow> False
                    | Some m \<Rightarrow> m \<notin> set (map msg_id (messages w)))
                then (Inl (Exception foreign_key_violation), w)
                else (Inr (), w\<lparr>conversations := map ?h (conversations w)\<rparr>))"
    by (simp add: keeps_def)
  then show ?thesis
    unfolding Conversation_save_def Inr
    by (simp add: keeps_storage store_ok_faults)
qed

lemma keeps_Conversation_delete: "keeps store_ok (Conversation_delete c)"
  unfolding Conversation_delete_def
proof (rule keeps_storage)
  show "keeps store_ok
          (\<lambda>w. (Inr (), w\<lparr>conversations :=
                            filter (\<lambda>r. conv_id r \<noteq> conv_id c) (conversations w)\<rparr>))"
    by (auto simp: keeps_def store_ok_def keys_ok_def references_ok_def list_all_iff
        distinct_map_filter split: option.splits)
qed (rule store_ok_faults)

lemma keeps_Message_delete: "keeps store_ok (Message_delete m)"
  unfolding Message_delete_def
proof (rule keeps_storage)
  let ?h = "\<lambda>r. if messagesId r = Some (msg_id m) then r\<lparr>messagesId := None\<rparr> else r"
  let ?keep = "\<lambda>x. msg_id x \<noteq> msg_id m"
  have "store_ok (w\<lparr>messages := filter ?keep (messages w),
                    conversations := map ?h (conversations w)\<rparr>)"
    if ok: "store_ok w" for w
  proof -
    have i: "map conv_id (map ?h (conversations w)) = map conv_id (conversations w)"
      and s: "map session_id (map ?h (conversations w)) = map session_id (conversations w)"
      by (simp_all add: map_key_if)
    have d: "distinct (map msg_id (filter ?keep (messages w)))"
      using ok by (simp add: store_ok_def keys_ok_def distinct_map_filter)
    have sub: "set (filter ?keep (messages w)) \<subseteq> set (messages w)" by auto
    have r: "k \<in> msg_id ` set (filter ?keep (messages w))"
      if xh: "x \<in> set (map ?h (conversations w))" and mk: "messagesId x = Some k" for x k
    proof -
      obtain y where y: "y \<in> set (conversations w)" "messagesId y = Some k"
        "k \<noteq> msg_id m"
        using xh mk by (auto split: if_splits)
      then have "k \<in> msg_id ` set (messages w)"
        using ok by (auto simp: store_ok_def references_ok_def list_all_iff
            split: option.splits)
      then show ?thesis using y(3) by auto
    qed
    show ?thesis
      by (rule store_ok_rewritten [OF ok i s d sub r])
  qed
  then show "keeps store_ok
          (\<lambda>w. (Inr (),
                 w\<lparr>messages := filter ?keep (messages w),
                   conversations := map ?h (conversations w)\<rparr>))"
    by (simp add: keeps_def)
qed (rule store_ok_faults)

lemma keeps_clear_references: "keeps store_ok (clear_references ev cs)"
  by (induction cs) (simp_all add: keeps_return keeps_bind keeps_Conversation_save)

lemma keeps_resolve_session: "keeps store_ok (resolve_session ev p)"
proof -
  have n: "keeps store_ok (new_session ev)"
    unfolding new_session_def
    by (intro keeps_bind keeps_uuid_v4 keeps_Conversation_create keeps_return)
  show ?thesis
    unfolding resolve_session_def
    by (auto simp: n split: option.splits
        intro!: keeps_bind keeps_Conversation_findBy keeps_Conversation_create keeps_return)
qed

lemma keeps_sendQuestion_try: "keeps store_ok (sendQuestion_try ev ctx)"
proof -
  have v: "keeps store_ok (request_validate b)" for b
    by (simp add: request_validate_def keeps_return keeps_throw split: sum.splits)
  show ?thesis
    unfolding sendQuestion_try_def Let_def
    by (intro keeps_bind v keeps_resolve_session)
       (auto split: option.splits
        intro!: keeps_bind keeps_return keeps_Message_create keeps_Conversation_save)
qed

lemma keeps_preload: "keeps P preload_lastMessage"
  by (simp add: preload_lastMessage_def keeps_return keeps_throw)

lemma keeps_getAllConversations_try: "keeps store_ok (getAllConversations_try ev ctx)"
  unfolding getAllConversations_try_def Conversation_paginate_def Let_def
  by (intro keeps_bind keeps_preload keeps_read keeps_return) (simp split: sum.splits)

lemma keeps_getConversationMessages_try: "keeps store_ok (getConversationMessages_try ev ctx)"
  unfolding getConversationMessages_try_def Let_def Conversation_first_where_session_id_def
    Conversation_first_where_id_def
  by (auto split: option.splits sum.splits
      intro!: keeps_bind keeps_preload keeps_bound keeps_read keeps_return)

lemma keeps_deleteConversation_try: "keeps store_ok (deleteConversation_try ev ctx)"
  unfolding deleteConversation_try_def Conversation_find_def
  by (auto split: option.splits sum.splits
      intro!: keeps_bind keeps_bound keeps_read keeps_return keeps_Conversation_delete)

lemma keeps_deleteMessage_try: "keeps store_ok (deleteMessage_try ev ctx)"
  unfolding deleteMessage_try_def Message_find_def Conversation_where_messages_id_def
  by (auto split: option.splits sum.splits
      intro!: keeps_bind keeps_bound keeps_read keeps_return keeps_clear_references
        keeps_Message_delete)

lemma catch_all_world: "snd (catch_all msg m w) = snd (m w)"
  by (simp add: catch_all_def split: prod.splits sum.splits)

lemma sendQuestion_world: "snd (sendQuestion ev ctx w) = snd (sendQuestion_try ev ctx w)"
  by (simp add: sendQuestion_def split: prod.splits sum.splits error.splits)

theorem store_ok_invariant:
  assumes "store_ok w"
  shows "store_ok (snd (sendQuestion ev ctx w))"
    and "store_ok (snd (getAllConversations ev ctx w))"
    and "store_ok (snd (getConversationMessages ev ctx w))"
    and "store_ok (snd (deleteConversation ev ctx w))"
    and "store_ok (snd (deleteMessage ev ctx w))"
  using assms keeps_sendQuestion_try [of ev ctx] keeps_getAllConversations_try [of ev ctx]
    keeps_getConversationMessages_try [of ev ctx] keeps_deleteConversation_try [of ev ctx]
    keeps_deleteMessage_try [of ev ctx]
  by (simp_all add: keeps_def sendQuestion_world catch_all_world getAllConversations_def
      getConversationMessages_def deleteConversation_def deleteMessage_def)

lemma store_ok_empty: "store_ok (empty_store\<lparr>faults := fs\<rparr>)"
  by (simp add: store_ok_def keys_ok_def references_ok_def empty_store_def)

section \<open>When the delete itself fails\<close>

text \<open>
  The order of the two stages can be observed: let every storage call of
  \<open>deleteMessage\<close> go through but the last, the delete of the message. The request
  answers 500, and the world it leaves has the references cleared and the message
  still stored.
\<close>

lemma storage_passes:
  "faults w = None # fs \<Longrightarrow> storage f w = f (w\<lparr>faults := fs\<rparr>)"
  by (simp add: storage_def)

lemma clear_references_passes:
  "faults w = replicate (length cs) None @ fs \<Longrightarrow>
   clear_references ev cs w =
     (Inr (), w\<lparr>conversations :=
                 map (\<lambda>r. if conv_id r \<in> conv_id ` set cs then cleared ev r else r)
                   (conversations w),
               faults := fs\<rparr>)"
proof (induction cs arbitrary: w)
  case Nil
  then show ?case by (simp add: return_io_def)
next
  case (Cons c cs)
  let ?w1 = "w\<lparr>faults := replicate (length cs) None @ fs,
               conversations :=
                 map (\<lambda>r. if conv_id r = conv_id c then cleared ev r else r) (conversations w)\<rparr>"
  have f: "faults w = None # (replicate (length cs) None @ fs)"
    using Cons.prems by simp
  have s: "Conversation_save ev c None None w = (Inr (), ?w1)"
    by (simp add: Conversation_save_def last_messages_update_def storage_passes [OF f]
        cleared_def)
  have f1: "faults ?w1 = replicate (length cs) None @ fs" by simp
  have m: "(\<lambda>r. if conv_id r \<in> conv_id ` set cs then cleared ev r else r) \<circ>
           (\<lambda>r. if conv_id r = conv_id c then cleared ev r else r) =
           (\<lambda>r. if conv_id r = conv_id c \<or> conv_id r \<in> conv_id ` set cs
                then cleared ev r else r)"
    by (auto simp: fun_eq_iff cleared_def)
  show ?case
    using Cons.IH [OF f1] by (simp add: bind_io_def s m)
qed

lemma deleteMessage_fails_at_delete:
  assumes "params ctx ''id'' = Some v" and "parse_nat v = Some n"
      and "find (\<lambda>m. msg_id m = n) (messages w) = Some m" and "keys_ok w"
      and "faults w =
             None # None #
             replicate (length (filter (\<lambda>c. messagesId c = Some n) (conversations w))) None @
             [Some e]"
  shows "deleteMessage ev ctx w =
           (InternalServerError ''Failed to delete message.'' (Some e),
            w\<lparr>conversations :=
                map (\<lambda>r. if messagesId r = Some n then cleared ev r else r) (conversations w),
              faults := []\<rparr>)"
proof -
  let ?cs = "filter (\<lambda>c. messagesId c = Some n) (conversations w)"
  let ?w1 = "w\<lparr>faults := None # replicate (length ?cs) None @ [Some e]\<rparr>"
  let ?w2 = "w\<lparr>faults := replicate (length ?cs) None @ [Some e]\<rparr>"
  let ?w3 = "w\<lparr>conversations :=
                 map (\<lambda>r. if messagesId r = Some n then cleared ev r else r) (conversations w),
               faults := [Some e]\<rparr>"
  have mm: "msg_id m = n" using find_msg_id [OF assms(3)] by simp
  have d: "distinct (map conv_id (conversations w))"
    using assms(4) by (simp add: keys_ok_def)
  have a: "Message_find (params ctx ''id'') w = (Inr (Some m), ?w1)"
    using assms(1)
    by (simp add: Message_find_def bound_def storage_passes [OF assms(5)]
        where_primary_key_found [OF assms(2,3)])
  have b: "Conversation_where_messages_id n ?w1 = (Inr ?cs, ?w2)"
    by (simp add: Conversation_where_messages_id_def
        storage_passes [of ?w1 "replicate (length ?cs) None @ [Some e]"])
  have "map (\<lambda>r. if conv_id r \<in> conv_id ` set ?cs then cleared ev r else r) (conversations w) =
        map (\<lambda>r. if messagesId r = Some n then cleared ev r else r) (conversations w)"
    by (rule map_cong [OF refl]) (simp only: referencing_rows [OF d])
  then have c: "clear_references ev ?cs ?w2 = (Inr (), ?w3)"
    using clear_references_passes [of ?w2 ?cs "[Some e]" ev] by simp
  have e: "Message_delete m ?w3 =
             (Inl (Exception e),
              w\<lparr>conversations :=
                  map (\<lambda>r. if messagesId r = Some n then cleared ev r else r) (conversations w),
                faults := []\<rparr>)"
    by (simp add: Message_delete_def storage_fault [of ?w3 e "[]"])
  have "deleteMessage_try ev ctx w =
          (Inl (Exception e),
           w\<lparr>conversations :=
               map (\<lambda>r. if messagesId r = Some n then cleared ev r else r) (conversations w),
             faults := []\<rparr>)"
    by (simp add: deleteMessage_try_def bind_io_def a mm b c e)
  then show ?thesis by (simp add: deleteMessage_def catch_all_def)
qed

end
